theory Spec2Isabelle
  imports Main
begin

section \<open>The security-compliance toolchain tool resource\<close>

text \<open>
  A shallow embedding of
  \<^verbatim>\<open>ibm/service/cdtoolchain/resource_ibm_cd_toolchain_tool_securitycompliance.go\<close>:
  the resource schema, the validator table, the four CRUD handlers and the
  referent-to-map converter. The handlers mutate the resource data \<open>d\<close> and talk to a
  remote service through the SDK client; the model passes both explicitly.
\<close>

subsection \<open>Values exchanged with the SDK\<close>

text \<open>
  A Go \<^verbatim>\<open>error\<close> produced by a collaborator is an opaque message. A
  \<^verbatim>\<open>*string\<close> that the code hands on without dereferencing it is a
  \<open>string option\<close> (\<open>None\<close> is the nil pointer).
\<close>

type_synonym go_error = string

type_synonym DateTime = int

record DetailedResponse =
  StatusCode :: int

record ToolModelReferent =
  UIHref :: "string option"
  APIHref :: "string option"

subsection \<open>The referent-to-map converter\<close>

text \<open>
  \<^verbatim>\<open>resourceIBMCdToolchainToolSecuritycomplianceToolModelReferentToMap\<close> (lines 362-371)
  returns the pair of the map and the error; the error is the second component, \<open>None\<close>
  for Go's nil.
\<close>

definition resourceIBMCdToolchainToolSecuritycomplianceToolModelReferentToMap ::
  "ToolModelReferent \<Rightarrow> (string \<rightharpoonup> string) \<times> go_error option" where
  "resourceIBMCdToolchainToolSecuritycomplianceToolModelReferentToMap model =
     (let modelMap = Map.empty;
          modelMap = (case UIHref model of Some v \<Rightarrow> modelMap(''ui_href'' \<mapsto> v) | None \<Rightarrow> modelMap);
          modelMap = (case APIHref model of Some v \<Rightarrow> modelMap(''api_href'' \<mapsto> v) | None \<Rightarrow> modelMap)
      in (modelMap, None))"

subsection \<open>Regular expressions\<close>















subsection \<open>The validator table\<close>









subsection \<open>The resource schema\<close>

text \<open>
  \<^verbatim>\<open>ResourceIBMCdToolchainToolSecuritycompliance\<close> (lines 20-156). The schema is a list
  of named fields in the order of the source. \<open>Description\<close> and
  \<open>DiffSuppressFunc\<close> are left out; \<open>ValidateFunc\<close> is the pair of names handed to
  \<^verbatim>\<open>validate.InvokeValidator\<close>. The four handler fields of the resource are the
  functions defined below.
\<close>

datatype ValueType = TypeString | TypeList | TypeMap

record schema_attrs =
  s_Type :: ValueType
  s_Required :: bool
  s_Optional :: bool
  s_Computed :: bool
  s_ForceNew :: bool
  s_Sensitive :: bool
  s_MinItems :: nat
  s_MaxItems :: nat
  s_ValidateFunc :: "(string \<times> string) option"

datatype schema = Field schema_attrs "(string \<times> schema) list"

definition of_type :: "ValueType \<Rightarrow> schema_attrs" where
  "of_type t = \<lparr>s_Type = t, s_Required = False, s_Optional = False, s_Computed = False,
                s_ForceNew = False, s_Sensitive = False, s_MinItems = 0, s_MaxItems = 0,
                s_ValidateFunc = None\<rparr>"

definition ResourceIBMCdToolchainToolSecuritycompliance :: "(string \<times> schema) list" where
  "ResourceIBMCdToolchainToolSecuritycompliance =
    [(''toolchain_id'',
        Field ((of_type TypeString)\<lparr>s_Required := True, s_ForceNew := True,
          s_ValidateFunc := Some (''ibm_cd_toolchain_tool_securitycompliance'', ''toolchain_id'')\<rparr>) []),
     (''parameters'',
        Field ((of_type TypeList)\<lparr>s_MinItems := 1, s_MaxItems := 1, s_Required := True\<rparr>)
          [(''name'', Field ((of_type TypeString)\<lparr>s_Required := True\<rparr>) []),
           (''evidence_repo_name'', Field ((of_type TypeString)\<lparr>s_Required := True\<rparr>) []),
           (''trigger_scan'', Field ((of_type TypeString)\<lparr>s_Optional := True\<rparr>) []),
           (''location'', Field ((of_type TypeString)\<lparr>s_Optional := True\<rparr>) []),
           (''evidence_namespace'', Field ((of_type TypeString)\<lparr>s_Optional := True\<rparr>) []),
           (''api_key'', Field ((of_type TypeString)\<lparr>s_Optional := True, s_Sensitive := True\<rparr>) []),
           (''scope'', Field ((of_type TypeString)\<lparr>s_Optional := True\<rparr>) []),
           (''profile'', Field ((of_type TypeString)\<lparr>s_Optional := True\<rparr>) []),
           (''trigger_info'', Field ((of_type TypeMap)\<lparr>s_Optional := True, s_Computed := True\<rparr>) [])]),
     (''name'',
        Field ((of_type TypeString)\<lparr>s_Optional := True,
          s_ValidateFunc := Some (''ibm_cd_toolchain_tool_securitycompliance'', ''name'')\<rparr>) []),
     (''resource_group_id'', Field ((of_type TypeString)\<lparr>s_Computed := True\<rparr>) []),
     (''crn'', Field ((of_type TypeString)\<lparr>s_Computed := True\<rparr>) []),
     (''toolchain_crn'', Field ((of_type TypeString)\<lparr>s_Computed := True\<rparr>) []),
     (''href'', Field ((of_type TypeString)\<lparr>s_Computed := True\<rparr>) []),
     (''referent'',
        Field ((of_type TypeList)\<lparr>s_Computed := True\<rparr>)
          [(''ui_href'', Field ((of_type TypeString)\<lparr>s_Optional := True\<rparr>) []),
           (''api_href'', Field ((of_type TypeString)\<lparr>s_Optional := True\<rparr>) [])]),
     (''updated_at'', Field ((of_type TypeString)\<lparr>s_Computed := True\<rparr>) []),
     (''state'', Field ((of_type TypeString)\<lparr>s_Computed := True\<rparr>) []),
     (''tool_id'', Field ((of_type TypeString)\<lparr>s_Computed := True\<rparr>) [])]"

subsection \<open>Errors and diagnostics\<close>

text \<open>
  An error is either the opaque error of a collaborator or the result of
  \<^verbatim>\<open>fmt.Errorf\<close>, kept as its format string and its arguments. A handler returns
  nil (\<open>ReturnNil\<close>) or \<^verbatim>\<open>diag.FromErr(err)\<close>, or it panics; \<^verbatim>\<open>log.Printf\<close> is
  not modelled.
\<close>

datatype error =
    Opaque go_error
  | Errorf string "fmt_arg list"
and fmt_arg =
    ArgError error
  | ArgResponse "DetailedResponse option"
  | ArgString string

datatype outcome = ReturnNil | FromErr error | Panic

subsection \<open>The resource data\<close>

text \<open>
  \<^verbatim>\<open>schema.ResourceData\<close> belongs to the Terraform plugin SDK. The model keeps what
  the handlers use: the resource ID, the attribute values that \<^verbatim>\<open>Get\<close> reads and
  \<^verbatim>\<open>Set\<close> writes, the keys for which \<^verbatim>\<open>HasChange\<close> answers true, and the
  framework's decision whether a \<^verbatim>\<open>Set\<close> is rejected. The parameter maps
  (\<^verbatim>\<open>map[string]interface{}\<close>) are never inspected by this file; their type is the
  type variable \<open>'p\<close>.
\<close>

datatype 'p tf_value =
    StringV string
  | StringPtrV "string option"
  | ParametersV "'p list"
  | ReferentV "(string \<rightharpoonup> string) list"

record 'p ResourceData =
  rd_id :: string
  rd_attrs :: "string \<rightharpoonup> 'p tf_value"
  rd_changed :: "string \<Rightarrow> bool"
  rd_set_error :: "string \<Rightarrow> 'p tf_value \<Rightarrow> go_error option"

definition d_Id :: "'p ResourceData \<Rightarrow> string" where
  "d_Id d = rd_id d"

definition d_SetId :: "'p ResourceData \<Rightarrow> string \<Rightarrow> 'p ResourceData" where
  "d_SetId d v = d\<lparr>rd_id := v\<rparr>"

text \<open>\<^verbatim>\<open>d.Get(key).(string)\<close>: the zero value when the attribute is not set.\<close>

definition d_Get :: "'p ResourceData \<Rightarrow> string \<Rightarrow> string" where
  "d_Get d key =
     (case rd_attrs d key of
        Some (StringV v) \<Rightarrow> v
      | Some (StringPtrV (Some v)) \<Rightarrow> v
      | _ \<Rightarrow> [])"

text \<open>\<^verbatim>\<open>d.GetOk(key)\<close>: the value, and whether it is set to a non-zero value.\<close>

definition d_GetOk :: "'p ResourceData \<Rightarrow> string \<Rightarrow> string \<times> bool" where
  "d_GetOk d key = (d_Get d key, d_Get d key \<noteq> [])"

definition d_HasChange :: "'p ResourceData \<Rightarrow> string \<Rightarrow> bool" where
  "d_HasChange d key = rd_changed d key"

text \<open>\<^verbatim>\<open>d.Set(key, value)\<close> returns the error and leaves the attribute alone when it fails.\<close>

definition d_Set ::
  "'p ResourceData \<Rightarrow> string \<Rightarrow> 'p tf_value \<Rightarrow> go_error option \<times> 'p ResourceData" where
  "d_Set d key v =
     (case rd_set_error d key v of
        Some err \<Rightarrow> (Some err, d)
      | None \<Rightarrow> (None, d\<lparr>rd_attrs := (rd_attrs d)(key \<mapsto> v)\<rparr>))"

subsection \<open>The SDK client and the remote service\<close>

text \<open>
  The request and response structs of \<^verbatim>\<open>cdtoolchainv2\<close>, with the fields this file
  touches. A struct that the SDK returns without an error is present, and so is the
  \<open>Referent\<close> inside it; a \<^verbatim>\<open>*string\<close> may be nil.
\<close>

record 'p CreateToolOptions =
  cto_ToolchainID :: "string option"
  cto_ToolTypeID :: "string option"
  cto_Parameters :: "'p option"
  cto_Name :: "string option"

record GetToolByIDOptions =
  gto_ToolchainID :: "string option"
  gto_ToolID :: "string option"

record 'p ToolchainToolPrototypePatch =
  patch_Name :: "string option"
  patch_Parameters :: "'p option"

record 'p UpdateToolOptions =
  uto_ToolchainID :: "string option"
  uto_ToolID :: "string option"
  uto_ToolchainToolPrototypePatch :: "'p ToolchainToolPrototypePatch option"

record DeleteToolOptions =
  dto_ToolchainID :: "string option"
  dto_ToolID :: "string option"

record ToolchainToolPost =
  post_ID :: "string option"

record 'p ToolchainTool =
  tool_ID :: "string option"
  tool_ResourceGroupID :: "string option"
  tool_CRN :: "string option"
  tool_ToolchainID :: "string option"
  tool_ToolchainCRN :: "string option"
  tool_Href :: "string option"
  tool_Referent :: ToolModelReferent
  tool_Name :: "string option"
  tool_UpdatedAt :: "DateTime option"
  tool_Parameters :: 'p
  tool_State :: "string option"

text \<open>
  A call of the SDK returns a result, a response and an error. When the error is nil the
  result is there (\<open>Success\<close>); otherwise the response may be nil (\<open>Failure\<close>).
\<close>

datatype 'a sdk_result = Success 'a | Failure go_error "DetailedResponse option"

text \<open>
  The remote service has a state of type \<open>'r\<close>, which only the four methods of the
  client can read or change.
\<close>

record ('p, 'r) CdToolchainV2Client =
  CreateToolWithContext :: "'p CreateToolOptions \<Rightarrow> 'r \<Rightarrow> ToolchainToolPost sdk_result \<times> 'r"
  GetToolByIDWithContext :: "GetToolByIDOptions \<Rightarrow> 'r \<Rightarrow> 'p ToolchainTool sdk_result \<times> 'r"
  UpdateToolWithContext :: "'p UpdateToolOptions \<Rightarrow> 'r \<Rightarrow> unit sdk_result \<times> 'r"
  DeleteToolWithContext :: "DeleteToolOptions \<Rightarrow> 'r \<Rightarrow> unit sdk_result \<times> 'r"

text \<open>\<^verbatim>\<open>meta.(conns.ClientSession).CdToolchainV2()\<close> yields the client or an error.\<close>

record ('p, 'r) ClientSession =
  CdToolchainV2 :: "go_error + ('p, 'r) CdToolchainV2Client"

text \<open>
  The world outside the handler: the state of the remote service and, as a record of
  what the handler did, the SDK calls made so far, oldest first.
\<close>

datatype 'p sdk_call =
    CreateToolCall "'p CreateToolOptions"
  | GetToolByIDCall GetToolByIDOptions
  | UpdateToolCall "'p UpdateToolOptions"
  | DeleteToolCall DeleteToolOptions

record ('p, 'r) world =
  remote :: 'r
  sdk_calls :: "'p sdk_call list"

definition invoke ::
  "('o \<Rightarrow> 'r \<Rightarrow> 'a sdk_result \<times> 'r) \<Rightarrow> ('o \<Rightarrow> 'p sdk_call) \<Rightarrow> 'o \<Rightarrow> ('p, 'r) world \<Rightarrow>
     'a sdk_result \<times> ('p, 'r) world" where
  "invoke method call options w =
     (case method options (remote w) of
        (result, r) \<Rightarrow> (result, \<lparr>remote = r, sdk_calls = sdk_calls w @ [call options]\<rparr>))"

subsection \<open>Collaborators inside the provider\<close>

text \<open>
  \<^verbatim>\<open>flex.SepIdParts\<close>, \<^verbatim>\<open>flex.DateTimeToString\<close> and the three
  \<^verbatim>\<open>GetParameters...\<close> helpers of the package are defined in other files. The handlers
  take them as parameters.
\<close>

record 'p collaborators =
  SepIdParts :: "string \<Rightarrow> string \<Rightarrow> go_error + string list"
  DateTimeToString :: "DateTime option \<Rightarrow> string"
  GetParametersForCreate ::
    "'p ResourceData \<Rightarrow> (string \<times> schema) list \<Rightarrow> (string \<rightharpoonup> string) \<Rightarrow> 'p"
  GetParametersFromRead ::
    "'p \<Rightarrow> (string \<times> schema) list \<Rightarrow> (string \<rightharpoonup> string) \<Rightarrow> 'p"
  GetParametersForUpdate ::
    "'p ResourceData \<Rightarrow> (string \<times> schema) list \<Rightarrow> (string \<rightharpoonup> string) \<Rightarrow> 'p"

subsection \<open>The handlers\<close>

text \<open>
  A handler takes the collaborators, \<open>meta\<close>, the resource data and the world, and
  returns its outcome with the resource data and the world as it leaves them.
  \<open>parts[0]\<close> and \<open>parts[1]\<close> panic when \<^verbatim>\<open>SepIdParts\<close> hands back fewer than
  two parts, and so does \<^verbatim>\<open>*p\<close> for a nil \<open>p\<close>.
\<close>

text \<open>\<^verbatim>\<open>resourceIBMCdToolchainToolSecuritycomplianceRead\<close> (lines 215-284).\<close>

definition resourceIBMCdToolchainToolSecuritycomplianceRead ::
  "'p collaborators \<Rightarrow> ('p, 'r) ClientSession \<Rightarrow> 'p ResourceData \<Rightarrow> ('p, 'r) world \<Rightarrow>
     outcome \<times> 'p ResourceData \<times> ('p, 'r) world" where
  "resourceIBMCdToolchainToolSecuritycomplianceRead env meta d w =
    (case CdToolchainV2 meta of
       Inl err \<Rightarrow> (FromErr (Opaque err), d, w)
     | Inr cdToolchainClient \<Rightarrow>
    (case SepIdParts env (d_Id d) ''/'' of
       Inl err \<Rightarrow> (FromErr (Opaque err), d, w)
     | Inr parts \<Rightarrow>
    (case parts of
       [] \<Rightarrow> (Panic, d, w)
     | [p0] \<Rightarrow> (Panic, d, w)
     | p0 # p1 # _ \<Rightarrow>
    (let getToolByIDOptions = \<lparr>gto_ToolchainID = None, gto_ToolID = None\<rparr>;
         getToolByIDOptions = getToolByIDOptions\<lparr>gto_ToolchainID := Some p0\<rparr>;
         getToolByIDOptions = getToolByIDOptions\<lparr>gto_ToolID := Some p1\<rparr>
     in
    (case invoke (GetToolByIDWithContext cdToolchainClient) GetToolByIDCall getToolByIDOptions w of
       (Failure err response, w) \<Rightarrow>
         (case response of
            None \<Rightarrow>
              (FromErr (Errorf (''GetToolByIDWithContext failed %s'' @ [CHR 0x0A] @ ''%s'')
                          [ArgError (Opaque err), ArgResponse response]), d, w)
          | Some resp \<Rightarrow>
              if StatusCode resp = 404 then (ReturnNil, d_SetId d [], w)
              else
                (FromErr (Errorf (''GetToolByIDWithContext failed %s'' @ [CHR 0x0A] @ ''%s'')
                            [ArgError (Opaque err), ArgResponse response]), d, w))
     | (Success toolchainTool, w) \<Rightarrow>
    (case d_Set d ''toolchain_id'' (StringPtrV (tool_ToolchainID toolchainTool)) of
       (Some err, d) \<Rightarrow>
         (FromErr (Errorf ''Error setting toolchain_id: %s'' [ArgError (Opaque err)]), d, w)
     | (None, d) \<Rightarrow>
    (let remapFields = [''api_key'' \<mapsto> ''api-key''];
         parametersMap = GetParametersFromRead env (tool_Parameters toolchainTool)
                           ResourceIBMCdToolchainToolSecuritycompliance remapFields
     in
    (case d_Set d ''parameters'' (ParametersV [parametersMap]) of
       (Some err, d) \<Rightarrow>
         (FromErr (Errorf ''Error setting parameters: %s'' [ArgError (Opaque err)]), d, w)
     | (None, d) \<Rightarrow>
    (case d_Set d ''name'' (StringPtrV (tool_Name toolchainTool)) of
       (Some err, d) \<Rightarrow>
         (FromErr (Errorf ''Error setting name: %s'' [ArgError (Opaque err)]), d, w)
     | (None, d) \<Rightarrow>
    (case d_Set d ''resource_group_id'' (StringPtrV (tool_ResourceGroupID toolchainTool)) of
       (Some err, d) \<Rightarrow>
         (FromErr (Errorf ''Error setting resource_group_id: %s'' [ArgError (Opaque err)]), d, w)
     | (None, d) \<Rightarrow>
    (case d_Set d ''crn'' (StringPtrV (tool_CRN toolchainTool)) of
       (Some err, d) \<Rightarrow>
         (FromErr (Errorf ''Error setting crn: %s'' [ArgError (Opaque err)]), d, w)
     | (None, d) \<Rightarrow>
    (case d_Set d ''toolchain_crn'' (StringPtrV (tool_ToolchainCRN toolchainTool)) of
       (Some err, d) \<Rightarrow>
         (FromErr (Errorf ''Error setting toolchain_crn: %s'' [ArgError (Opaque err)]), d, w)
     | (None, d) \<Rightarrow>
    (case d_Set d ''href'' (StringPtrV (tool_Href toolchainTool)) of
       (Some err, d) \<Rightarrow>
         (FromErr (Errorf ''Error setting href: %s'' [ArgError (Opaque err)]), d, w)
     | (None, d) \<Rightarrow>
    (case resourceIBMCdToolchainToolSecuritycomplianceToolModelReferentToMap
            (tool_Referent toolchainTool) of
       (referentMap, Some err) \<Rightarrow> (FromErr (Opaque err), d, w)
     | (referentMap, None) \<Rightarrow>
    (case d_Set d ''referent'' (ReferentV [referentMap]) of
       (Some err, d) \<Rightarrow>
         (FromErr (Errorf ''Error setting referent: %s'' [ArgError (Opaque err)]), d, w)
     | (None, d) \<Rightarrow>
    (case d_Set d ''updated_at'' (StringV (DateTimeToString env (tool_UpdatedAt toolchainTool))) of
       (Some err, d) \<Rightarrow>
         (FromErr (Errorf ''Error setting updated_at: %s'' [ArgError (Opaque err)]), d, w)
     | (None, d) \<Rightarrow>
    (case d_Set d ''state'' (StringPtrV (tool_State toolchainTool)) of
       (Some err, d) \<Rightarrow>
         (FromErr (Errorf ''Error setting state: %s'' [ArgError (Opaque err)]), d, w)
     | (None, d) \<Rightarrow>
    (case d_Set d ''tool_id'' (StringPtrV (tool_ID toolchainTool)) of
       (Some err, d) \<Rightarrow>
         (FromErr (Errorf ''Error setting tool_id: %s'' [ArgError (Opaque err)]), d, w)
     | (None, d) \<Rightarrow> (ReturnNil, d, w)))))))))))))))))))"

text \<open>\<^verbatim>\<open>resourceIBMCdToolchainToolSecuritycomplianceCreate\<close> (lines 185-213).\<close>

definition resourceIBMCdToolchainToolSecuritycomplianceCreate ::
  "'p collaborators \<Rightarrow> ('p, 'r) ClientSession \<Rightarrow> 'p ResourceData \<Rightarrow> ('p, 'r) world \<Rightarrow>
     outcome \<times> 'p ResourceData \<times> ('p, 'r) world" where
  "resourceIBMCdToolchainToolSecuritycomplianceCreate env meta d w =
    (case CdToolchainV2 meta of
       Inl err \<Rightarrow> (FromErr (Opaque err), d, w)
     | Inr cdToolchainClient \<Rightarrow>
    (let createToolOptions =
           \<lparr>cto_ToolchainID = None, cto_ToolTypeID = None, cto_Parameters = None, cto_Name = None\<rparr>;
         createToolOptions = createToolOptions\<lparr>cto_ToolchainID := Some (d_Get d ''toolchain_id'')\<rparr>;
         createToolOptions = createToolOptions\<lparr>cto_ToolTypeID := Some ''security_compliance''\<rparr>;
         remapFields = [''api_key'' \<mapsto> ''api-key''];
         parametersModel = GetParametersForCreate env d
                             ResourceIBMCdToolchainToolSecuritycompliance remapFields;
         createToolOptions = createToolOptions\<lparr>cto_Parameters := Some parametersModel\<rparr>;
         createToolOptions =
           (if snd (d_GetOk d ''name'')
            then createToolOptions\<lparr>cto_Name := Some (d_Get d ''name'')\<rparr>
            else createToolOptions)
     in
    (case invoke (CreateToolWithContext cdToolchainClient) CreateToolCall createToolOptions w of
       (Failure err response, w) \<Rightarrow>
         (FromErr (Errorf (''CreateToolWithContext failed %s'' @ [CHR 0x0A] @ ''%s'')
                     [ArgError (Opaque err), ArgResponse response]), d, w)
     | (Success toolchainToolPost, w) \<Rightarrow>
    (case cto_ToolchainID createToolOptions of
       None \<Rightarrow> (Panic, d, w)
     | Some toolchainID \<Rightarrow>
    (case post_ID toolchainToolPost of
       None \<Rightarrow> (Panic, d, w)
     | Some toolID \<Rightarrow>
         resourceIBMCdToolchainToolSecuritycomplianceRead env meta
           (d_SetId d (toolchainID @ ''/'' @ toolID)) w)))))"

text \<open>
  \<^verbatim>\<open>resourceIBMCdToolchainToolSecuritycomplianceUpdate\<close> (lines 286-333). The JSON object
  that \<^verbatim>\<open>AsPatch\<close> builds from the patch struct is represented by the struct; the
  error of \<^verbatim>\<open>AsPatch\<close> is dropped, as in the source.
\<close>

definition resourceIBMCdToolchainToolSecuritycomplianceUpdate ::
  "'p collaborators \<Rightarrow> ('p, 'r) ClientSession \<Rightarrow> 'p ResourceData \<Rightarrow> ('p, 'r) world \<Rightarrow>
     outcome \<times> 'p ResourceData \<times> ('p, 'r) world" where
  "resourceIBMCdToolchainToolSecuritycomplianceUpdate env meta d w =
    (case CdToolchainV2 meta of
       Inl err \<Rightarrow> (FromErr (Opaque err), d, w)
     | Inr cdToolchainClient \<Rightarrow>
    (case SepIdParts env (d_Id d) ''/'' of
       Inl err \<Rightarrow> (FromErr (Opaque err), d, w)
     | Inr parts \<Rightarrow>
    (case parts of
       [] \<Rightarrow> (Panic, d, w)
     | [p0] \<Rightarrow> (Panic, d, w)
     | p0 # p1 # _ \<Rightarrow>
    (let updateToolOptions =
           \<lparr>uto_ToolchainID = None, uto_ToolID = None, uto_ToolchainToolPrototypePatch = None\<rparr>;
         updateToolOptions = updateToolOptions\<lparr>uto_ToolchainID := Some p0\<rparr>;
         updateToolOptions = updateToolOptions\<lparr>uto_ToolID := Some p1\<rparr>;
         hasChange = False;
         patchVals = \<lparr>patch_Name = None, patch_Parameters = None\<rparr>
     in
     if d_HasChange d ''toolchain_id'' then
       (FromErr (Errorf (''Cannot update resource property '' @ [CHR 0x22] @ ''%s'' @ [CHR 0x22] @
                         '' with the ForceNew annotation.'' @
                         '' The resource must be re-created to update this property.'')
                   [ArgString ''toolchain_id'']), d, w)
     else
    (let (patchVals, hasChange) =
           (if d_HasChange d ''parameters'' then
              (let remapFields = [''api_key'' \<mapsto> ''api-key''];
                   parameters = GetParametersForUpdate env d
                                  ResourceIBMCdToolchainToolSecuritycompliance remapFields
               in (patchVals\<lparr>patch_Parameters := Some parameters\<rparr>, True))
            else (patchVals, hasChange));
         (patchVals, hasChange) =
           (if d_HasChange d ''name'' then
              (let newName = d_Get d ''name''
               in (patchVals\<lparr>patch_Name := Some newName\<rparr>, True))
            else (patchVals, hasChange))
     in
     if hasChange then
       (let updateToolOptions =
              updateToolOptions\<lparr>uto_ToolchainToolPrototypePatch := Some patchVals\<rparr>
        in
        (case invoke (UpdateToolWithContext cdToolchainClient) UpdateToolCall updateToolOptions w of
           (Failure err response, w) \<Rightarrow>
             (FromErr (Errorf (''UpdateToolWithContext failed %s'' @ [CHR 0x0A] @ ''%s'')
                         [ArgError (Opaque err), ArgResponse response]), d, w)
         | (Success _, w) \<Rightarrow>
             resourceIBMCdToolchainToolSecuritycomplianceRead env meta d w))
     else resourceIBMCdToolchainToolSecuritycomplianceRead env meta d w)))))"

text \<open>\<^verbatim>\<open>resourceIBMCdToolchainToolSecuritycomplianceDelete\<close> (lines 335-360).\<close>

definition resourceIBMCdToolchainToolSecuritycomplianceDelete ::
  "'p collaborators \<Rightarrow> ('p, 'r) ClientSession \<Rightarrow> 'p ResourceData \<Rightarrow> ('p, 'r) world \<Rightarrow>
     outcome \<times> 'p ResourceData \<times> ('p, 'r) world" where
  "resourceIBMCdToolchainToolSecuritycomplianceDelete env meta d w =
    (case CdToolchainV2 meta of
       Inl err \<Rightarrow> (FromErr (Opaque err), d, w)
     | Inr cdToolchainClient \<Rightarrow>
    (case SepIdParts env (d_Id d) ''/'' of
       Inl err \<Rightarrow> (FromErr (Opaque err), d, w)
     | Inr parts \<Rightarrow>
    (case parts of
       [] \<Rightarrow> (Panic, d, w)
     | [p0] \<Rightarrow> (Panic, d, w)
     | p0 # p1 # _ \<Rightarrow>
    (let deleteToolOptions = \<lparr>dto_ToolchainID = None, dto_ToolID = None\<rparr>;
         deleteToolOptions = deleteToolOptions\<lparr>dto_ToolchainID := Some p0\<rparr>;
         deleteToolOptions = deleteToolOptions\<lparr>dto_ToolID := Some p1\<rparr>
     in
    (case invoke (DeleteToolWithContext cdToolchainClient) DeleteToolCall deleteToolOptions w of
       (Failure err response, w) \<Rightarrow>
         (FromErr (Errorf (''DeleteToolWithContext failed %s'' @ [CHR 0x0A] @ ''%s'')
                     [ArgError (Opaque err), ArgResponse response]), d, w)
     | (Success _, w) \<Rightarrow> (ReturnNil, d_SetId d [], w))))))"

subsection \<open>Notions used in the statements\<close>






text \<open>
  The assignments of the Read handler (lines 241-281), as the list of keys and values in
  the order of the source, and the effect of making them one after the other until one
  fails.
\<close>

definition mirrored_fields ::
  "'p collaborators \<Rightarrow> 'p ToolchainTool \<Rightarrow> (string \<times> 'p tf_value) list" where
  "mirrored_fields env toolchainTool =
     [(''toolchain_id'', StringPtrV (tool_ToolchainID toolchainTool)),
      (''parameters'', ParametersV [GetParametersFromRead env (tool_Parameters toolchainTool)
          ResourceIBMCdToolchainToolSecuritycompliance [''api_key'' \<mapsto> ''api-key'']]),
      (''name'', StringPtrV (tool_Name toolchainTool)),
      (''resource_group_id'', StringPtrV (tool_ResourceGroupID toolchainTool)),
      (''crn'', StringPtrV (tool_CRN toolchainTool)),
      (''toolchain_crn'', StringPtrV (tool_ToolchainCRN toolchainTool)),
      (''href'', StringPtrV (tool_Href toolchainTool)),
      (''referent'', ReferentV [fst (resourceIBMCdToolchainToolSecuritycomplianceToolModelReferentToMap
          (tool_Referent toolchainTool))]),
      (''updated_at'', StringV (DateTimeToString env (tool_UpdatedAt toolchainTool))),
      (''state'', StringPtrV (tool_State toolchainTool)),
      (''tool_id'', StringPtrV (tool_ID toolchainTool))]"

fun assign_all ::
  "'p ResourceData \<Rightarrow> 'w \<Rightarrow> (string \<times> 'p tf_value) list \<Rightarrow>
     outcome \<times> 'p ResourceData \<times> 'w" where
  "assign_all d w [] = (ReturnNil, d, w)"
| "assign_all d w ((key, v) # kvs) =
     (case d_Set d key v of
        (Some err, d) \<Rightarrow>
          (FromErr (Errorf (''Error setting '' @ key @ '': %s'') [ArgError (Opaque err)]), d, w)
      | (None, d) \<Rightarrow> assign_all d w kvs)"

text \<open>Which SDK method a recorded call belongs to.\<close>

fun is_CreateTool :: "'p sdk_call \<Rightarrow> bool" where
  "is_CreateTool (CreateToolCall _) = True"
| "is_CreateTool _ = False"

fun is_GetToolByID :: "'p sdk_call \<Rightarrow> bool" where
  "is_GetToolByID (GetToolByIDCall _) = True"
| "is_GetToolByID _ = False"

fun is_UpdateTool :: "'p sdk_call \<Rightarrow> bool" where
  "is_UpdateTool (UpdateToolCall _) = True"
| "is_UpdateTool _ = False"

fun is_DeleteTool :: "'p sdk_call \<Rightarrow> bool" where
  "is_DeleteTool (DeleteToolCall _) = True"
| "is_DeleteTool _ = False"

definition invocations :: "('p sdk_call \<Rightarrow> bool) \<Rightarrow> ('p, 'r) world \<Rightarrow> nat" where
  "invocations method w = length (filter method (sdk_calls w))"

text \<open>
  The guards that every handler passes before it reaches the SDK: the client is
  obtained, and (for Read, Update and Delete) the resource ID separates into at least
  two parts.
\<close>

definition client_obtained :: "('p, 'r) ClientSession \<Rightarrow> bool" where
  "client_obtained meta = (case CdToolchainV2 meta of Inl err \<Rightarrow> False | Inr client \<Rightarrow> True)"

definition id_separated :: "'p collaborators \<Rightarrow> 'p ResourceData \<Rightarrow> bool" where
  "id_separated env d =
     (case SepIdParts env (d_Id d) ''/'' of
        Inl err \<Rightarrow> False
      | Inr parts \<Rightarrow> (case parts of p0 # p1 # ps \<Rightarrow> True | _ \<Rightarrow> False))"

text \<open>The requests that Create and Update hand to the SDK.\<close>

definition create_request :: "'p collaborators \<Rightarrow> 'p ResourceData \<Rightarrow> 'p CreateToolOptions" where
  "create_request env d =
     \<lparr>cto_ToolchainID = Some (d_Get d ''toolchain_id''),
      cto_ToolTypeID = Some ''security_compliance'',
      cto_Parameters = Some (GetParametersForCreate env d
        ResourceIBMCdToolchainToolSecuritycompliance [''api_key'' \<mapsto> ''api-key'']),
      cto_Name = (if snd (d_GetOk d ''name'') then Some (d_Get d ''name'') else None)\<rparr>"

definition update_request ::
  "'p collaborators \<Rightarrow> 'p ResourceData \<Rightarrow> string \<Rightarrow> string \<Rightarrow> 'p UpdateToolOptions" where
  "update_request env d toolchainID toolID =
     \<lparr>uto_ToolchainID = Some toolchainID,
      uto_ToolID = Some toolID,
      uto_ToolchainToolPrototypePatch = Some
        \<lparr>patch_Name = (if d_HasChange d ''name'' then Some (d_Get d ''name'') else None),
         patch_Parameters =
           (if d_HasChange d ''parameters''
            then Some (GetParametersForUpdate env d
              ResourceIBMCdToolchainToolSecuritycompliance [''api_key'' \<mapsto> ''api-key''])
            else None)\<rparr>\<rparr>"

subsection \<open>A concrete service for the examples\<close>

text \<open>
  A remote service that holds at most one tool, or is out of order; collaborators that
  know one resource ID; parameter maps as association lists.
\<close>

datatype example_remote = Absent | Present | Unavailable

type_synonym example_parameters = "(string \<times> string) list"

definition example_tool :: "example_parameters ToolchainTool" where
  "example_tool =
     \<lparr>tool_ID = Some ''tool-9'',
      tool_ResourceGroupID = Some ''rg-1'',
      tool_CRN = Some ''crn:tool-9'',
      tool_ToolchainID = Some ''tc-1'',
      tool_ToolchainCRN = Some ''crn:tc-1'',
      tool_Href = Some ''https://api/tc-1/tool-9'',
      tool_Referent = \<lparr>UIHref = Some ''https://ui/tool-9'', APIHref = None\<rparr>,
      tool_Name = Some ''scc'',
      tool_UpdatedAt = Some 1650000000,
      tool_Parameters = [(''api-key'', ''secret'')],
      tool_State = Some ''configured''\<rparr>"

definition example_client :: "(example_parameters, example_remote) CdToolchainV2Client" where
  "example_client =
     \<lparr>CreateToolWithContext = (\<lambda>options r.
        if r = Unavailable then (Failure ''service unavailable'' (Some \<lparr>StatusCode = 503\<rparr>), r)
        else (Success \<lparr>post_ID = Some ''tool-9''\<rparr>, Present)),
      GetToolByIDWithContext = (\<lambda>options r.
        case r of
          Present \<Rightarrow> (Success example_tool, r)
        | Absent \<Rightarrow> (Failure ''tool not found'' (Some \<lparr>StatusCode = 404\<rparr>), r)
        | Unavailable \<Rightarrow> (Failure ''service unavailable'' (Some \<lparr>StatusCode = 503\<rparr>), r)),
      UpdateToolWithContext = (\<lambda>options r.
        case r of
          Present \<Rightarrow> (Success (), r)
        | Absent \<Rightarrow> (Failure ''tool not found'' (Some \<lparr>StatusCode = 404\<rparr>), r)
        | Unavailable \<Rightarrow> (Failure ''service unavailable'' (Some \<lparr>StatusCode = 503\<rparr>), r)),
      DeleteToolWithContext = (\<lambda>options r.
        case r of
          Present \<Rightarrow> (Success (), Absent)
        | Absent \<Rightarrow> (Failure ''tool not found'' (Some \<lparr>StatusCode = 404\<rparr>), r)
        | Unavailable \<Rightarrow> (Failure ''service unavailable'' (Some \<lparr>StatusCode = 503\<rparr>), r))\<rparr>"

definition example_meta :: "(example_parameters, example_remote) ClientSession" where
  "example_meta = \<lparr>CdToolchainV2 = Inr example_client\<rparr>"

definition example_meta_no_client :: "(example_parameters, example_remote) ClientSession" where
  "example_meta_no_client = \<lparr>CdToolchainV2 = Inl ''no client''\<rparr>"

definition example_env :: "example_parameters collaborators" where
  "example_env =
     \<lparr>SepIdParts = (\<lambda>id separator.
        if id = ''tc-1/tool-9'' \<and> separator = ''/'' then Inr [''tc-1'', ''tool-9'']
        else Inl ''the id does not contain the separator''),
      DateTimeToString = (\<lambda>t. case t of None \<Rightarrow> [] | Some _ \<Rightarrow> ''2022-04-15''),
      GetParametersForCreate = (\<lambda>d resource remapFields. [(''api-key'', ''secret'')]),
      GetParametersFromRead = (\<lambda>parameters resource remapFields. [(''api_key'', ''secret'')]),
      GetParametersForUpdate = (\<lambda>d resource remapFields. [(''api-key'', ''secret'')])\<rparr>"

definition example_world :: "example_remote \<Rightarrow> (example_parameters, example_remote) world" where
  "example_world r = \<lparr>remote = r, sdk_calls = []\<rparr>"

text \<open>
  The resource data of the tool \<open>tool-9\<close> in toolchain \<open>tc-1\<close>, with the given ID and
  the given changed keys; every \<^verbatim>\<open>Set\<close> is accepted.
\<close>

definition example_d :: "string \<Rightarrow> string list \<Rightarrow> example_parameters ResourceData" where
  "example_d ident changed_keys =
     \<lparr>rd_id = ident,
      rd_attrs = [''toolchain_id'' \<mapsto> StringV ''tc-1'', ''name'' \<mapsto> StringV ''scc''],
      rd_changed = (\<lambda>key. key \<in> set changed_keys),
      rd_set_error = (\<lambda>key v. None)\<rparr>"

section \<open>Properties\<close>

subsection \<open>The matcher decides the language\<close>












subsection \<open>The character classes of the two expressions\<close>







subsection \<open>The languages of the two expressions\<close>














subsection \<open>The referent-to-map converter\<close>



subsection \<open>The validator\<close>




subsection \<open>The assignments of the Read handler\<close>

lemma assign_all_step:
  "assign_all d w ((key, v) # kvs) =
     (case rd_set_error d key v of
        Some err \<Rightarrow>
          (FromErr (Errorf (''Error setting '' @ key @ '': %s'') [ArgError (Opaque err)]), d, w)
      | None \<Rightarrow> assign_all (d\<lparr>rd_attrs := (rd_attrs d)(key \<mapsto> v)\<rparr>) w kvs)"
  by (simp add: d_Set_def split: option.splits)

lemma assign_all_world: "snd (snd (assign_all d w kvs)) = w"
  by (induction kvs arbitrary: d) (auto simp: assign_all_step simp del: assign_all.simps(2)
        split: option.splits)

lemma assign_all_success_iff:
  "fst (assign_all d w kvs) = ReturnNil \<longleftrightarrow> (\<forall>(key, v) \<in> set kvs. rd_set_error d key v = None)"
  by (induction kvs arbitrary: d) (auto simp: assign_all_step simp del: assign_all.simps(2)
        split: option.splits)


lemma assign_all_attrs:
  "fst (assign_all d w kvs) = ReturnNil \<Longrightarrow>
     rd_attrs (fst (snd (assign_all d w kvs))) = rd_attrs d ++ map_of (rev kvs)"
proof (induction kvs arbitrary: d)
  case Nil
  then show ?case by simp
next
  case (Cons kv kvs)
  obtain key v where kv: "kv = (key, v)" by (cases kv)
  from Cons.prems kv have ok: "rd_set_error d key v = None"
    by (auto simp: assign_all_step simp del: assign_all.simps(2) split: option.splits)
  with Cons.prems kv
  have "fst (assign_all (d\<lparr>rd_attrs := (rd_attrs d)(key \<mapsto> v)\<rparr>) w kvs) = ReturnNil"
    by (simp add: assign_all_step del: assign_all.simps(2))
  from Cons.IH [OF this] ok kv show ?case
    by (simp add: assign_all_step map_add_upd_left del: assign_all.simps(2))
      (simp add: map_add_def fun_eq_iff split: option.splits)
qed

lemma assign_all_sets:
  assumes "fst (assign_all d w kvs) = ReturnNil" and "distinct (map fst kvs)"
    and "(key, v) \<in> set kvs"
  shows "rd_attrs (fst (snd (assign_all d w kvs))) key = Some v"
proof -
  have "map_of (rev kvs) key = Some v"
    using assms(2,3) by (intro map_of_is_SomeI) (simp_all add: rev_map [symmetric])
  then show ?thesis
    by (simp add: assign_all_attrs [OF assms(1)])
qed

lemma assign_all_outcome_cong:
  "rd_set_error d1 = rd_set_error d2 \<Longrightarrow>
     fst (assign_all d1 w1 kvs) = fst (assign_all d2 w2 kvs)"
proof (induction kvs arbitrary: d1 d2)
  case Nil
  then show ?case by simp
next
  case (Cons kv kvs)
  obtain key v where kv: "kv = (key, v)" by (cases kv)
  have "fst (assign_all (d1\<lparr>rd_attrs := (rd_attrs d1)(key \<mapsto> v)\<rparr>) w1 kvs) =
        fst (assign_all (d2\<lparr>rd_attrs := (rd_attrs d2)(key \<mapsto> v)\<rparr>) w2 kvs)"
    using Cons.prems by (intro Cons.IH) simp
  with Cons.prems kv show ?case
    by (simp add: assign_all_step del: assign_all.simps(2) split: option.splits)
qed

lemma mirrored_fields_distinct: "distinct (map fst (mirrored_fields env tool))"
  by (simp add: mirrored_fields_def)

lemma mirrored_fields_keys:
  "map fst (mirrored_fields env tool) =
     [''toolchain_id'', ''parameters'', ''name'', ''resource_group_id'', ''crn'',
      ''toolchain_crn'', ''href'', ''referent'', ''updated_at'', ''state'', ''tool_id'']"
  by (simp add: mirrored_fields_def)

subsection \<open>The Read handler, branch by branch\<close>

lemma converter_no_error:
  "snd (resourceIBMCdToolchainToolSecuritycomplianceToolModelReferentToMap model) = None"
  by (simp add: resourceIBMCdToolchainToolSecuritycomplianceToolModelReferentToMap_def Let_def)

lemma case_converter:
  "(case resourceIBMCdToolchainToolSecuritycomplianceToolModelReferentToMap model of
      (m, e) \<Rightarrow> (case e of None \<Rightarrow> Y m | Some err \<Rightarrow> X m err)) =
   Y (fst (resourceIBMCdToolchainToolSecuritycomplianceToolModelReferentToMap model))"
  using converter_no_error [of model]
  by (cases "resourceIBMCdToolchainToolSecuritycomplianceToolModelReferentToMap model") simp

lemma Read_no_client:
  "CdToolchainV2 meta = Inl err \<Longrightarrow>
     resourceIBMCdToolchainToolSecuritycomplianceRead env meta d w = (FromErr (Opaque err), d, w)"
  by (simp add: resourceIBMCdToolchainToolSecuritycomplianceRead_def)

lemma Read_no_parts:
  "CdToolchainV2 meta = Inr client \<Longrightarrow> SepIdParts env (rd_id d) ''/'' = Inl err \<Longrightarrow>
     resourceIBMCdToolchainToolSecuritycomplianceRead env meta d w = (FromErr (Opaque err), d, w)"
  by (simp add: resourceIBMCdToolchainToolSecuritycomplianceRead_def d_Id_def)

lemma Read_short_parts:
  "CdToolchainV2 meta = Inr client \<Longrightarrow> SepIdParts env (rd_id d) ''/'' = Inr parts \<Longrightarrow>
   length parts < 2 \<Longrightarrow>
     resourceIBMCdToolchainToolSecuritycomplianceRead env meta d w = (Panic, d, w)"
  by (cases parts rule: remdups_adj.cases)
    (simp_all add: resourceIBMCdToolchainToolSecuritycomplianceRead_def d_Id_def)

lemma Read_get_failure:
  assumes "CdToolchainV2 meta = Inr client"
    and "SepIdParts env (rd_id d) ''/'' = Inr (p0 # p1 # ps)"
    and "GetToolByIDWithContext client \<lparr>gto_ToolchainID = Some p0, gto_ToolID = Some p1\<rparr> (remote w)
           = (Failure err response, r')"
  shows "resourceIBMCdToolchainToolSecuritycomplianceRead env meta d w =
           (if \<exists>resp. response = Some resp \<and> StatusCode resp = 404
            then (ReturnNil, d\<lparr>rd_id := []\<rparr>,
                  \<lparr>remote = r', sdk_calls = sdk_calls w @
                     [GetToolByIDCall \<lparr>gto_ToolchainID = Some p0, gto_ToolID = Some p1\<rparr>]\<rparr>)
            else (FromErr (Errorf (''GetToolByIDWithContext failed %s'' @ [CHR 0x0A] @ ''%s'')
                             [ArgError (Opaque err), ArgResponse response]), d,
                  \<lparr>remote = r', sdk_calls = sdk_calls w @
                     [GetToolByIDCall \<lparr>gto_ToolchainID = Some p0, gto_ToolID = Some p1\<rparr>]\<rparr>))"
  unfolding resourceIBMCdToolchainToolSecuritycomplianceRead_def
  using assms
  by (simp add: invoke_def d_Id_def d_SetId_def Let_def split: option.splits)

lemma Read_get_success:
  assumes "CdToolchainV2 meta = Inr client"
    and "SepIdParts env (rd_id d) ''/'' = Inr (p0 # p1 # ps)"
    and "GetToolByIDWithContext client \<lparr>gto_ToolchainID = Some p0, gto_ToolID = Some p1\<rparr> (remote w)
           = (Success tool, r')"
  shows "resourceIBMCdToolchainToolSecuritycomplianceRead env meta d w =
           assign_all d \<lparr>remote = r', sdk_calls = sdk_calls w @
                 [GetToolByIDCall \<lparr>gto_ToolchainID = Some p0, gto_ToolID = Some p1\<rparr>]\<rparr>
             (mirrored_fields env tool)"
  unfolding resourceIBMCdToolchainToolSecuritycomplianceRead_def mirrored_fields_def
  using assms
  by (simp add: invoke_def d_Id_def case_converter Let_def
           cong: option.case_cong prod.case_cong)

text \<open>
  Whatever happens, Read appends at most one call, a \<open>GetToolByID\<close>, to the calls made
  so far, and makes exactly one when the client is there and the ID has two parts.
\<close>

lemma Read_calls:
  "sdk_calls (snd (snd (resourceIBMCdToolchainToolSecuritycomplianceRead env meta d w))) =
     sdk_calls w @
       (case CdToolchainV2 meta of
          Inl err \<Rightarrow> []
        | Inr client \<Rightarrow>
            (case SepIdParts env (rd_id d) ''/'' of
               Inl err \<Rightarrow> []
             | Inr parts \<Rightarrow>
                 (case parts of
                    p0 # p1 # ps \<Rightarrow>
                      [GetToolByIDCall \<lparr>gto_ToolchainID = Some p0, gto_ToolID = Some p1\<rparr>]
                  | _ \<Rightarrow> [])))"
proof (cases "CdToolchainV2 meta")
  case (Inl err)
  then show ?thesis by (simp add: Read_no_client)
next
  case (Inr client)
  show ?thesis
  proof (cases "SepIdParts env (rd_id d) ''/''")
    case (Inl err)
    with Inr show ?thesis by (simp add: Read_no_parts)
  next
    case parts: (Inr parts)
    show ?thesis
    proof (cases "length parts < 2")
      case True
      with Inr parts show ?thesis
        by (cases parts rule: remdups_adj.cases) (simp_all add: Read_short_parts)
    next
      case False
      then obtain p0 p1 ps where ps: "parts = p0 # p1 # ps"
        by (cases parts rule: remdups_adj.cases) simp_all
      obtain res r' where call:
        "GetToolByIDWithContext client \<lparr>gto_ToolchainID = Some p0, gto_ToolID = Some p1\<rparr> (remote w)
           = (res, r')"
        by (cases "GetToolByIDWithContext client \<lparr>gto_ToolchainID = Some p0, gto_ToolID = Some p1\<rparr>
                     (remote w)")
      show ?thesis
      proof (cases res)
        case (Success tool)
        with Inr parts ps call show ?thesis
          by (simp add: Read_get_success assign_all_world)
      next
        case (Failure err response)
        with Inr parts ps call show ?thesis
          by (simp add: Read_get_failure)
      qed
    qed
  qed
qed

subsection \<open>Read\<close>



text \<open>
  C8. When \<open>GetToolByID\<close> returns an error together with a response whose status code
  is 404, Read sets the resource ID to the empty string and returns no error
  diagnostic; for any other error of \<open>GetToolByID\<close> it returns an error diagnostic and
  leaves the resource data, the ID with it, as it was.
\<close>

theorem read_get_error:
  assumes "CdToolchainV2 meta = Inr client"
    and "SepIdParts env (d_Id d) ''/'' = Inr (p0 # p1 # ps)"
    and "GetToolByIDWithContext client \<lparr>gto_ToolchainID = Some p0, gto_ToolID = Some p1\<rparr> (remote w)
           = (Failure err response, r')"
    and "resourceIBMCdToolchainToolSecuritycomplianceRead env meta d w = (out, d', w')"
  shows "((\<exists>resp. response = Some resp \<and> StatusCode resp = 404) \<longrightarrow>
            out = ReturnNil \<and> d_Id d' = [] \<and> rd_attrs d' = rd_attrs d) \<and>
         (\<not> (\<exists>resp. response = Some resp \<and> StatusCode resp = 404) \<longrightarrow>
            out = FromErr (Errorf (''GetToolByIDWithContext failed %s'' @ [CHR 0x0A] @ ''%s'')
                             [ArgError (Opaque err), ArgResponse response]) \<and>
            d' = d)"
proof (cases "\<exists>resp. response = Some resp \<and> StatusCode resp = 404")
  case True
  with assms(4) Read_get_failure [OF assms(1) assms(2) [unfolded d_Id_def] assms(3)]
  have "(out, d', w') = (ReturnNil, d\<lparr>rd_id := []\<rparr>,
      \<lparr>remote = r', sdk_calls = sdk_calls w @
         [GetToolByIDCall \<lparr>gto_ToolchainID = Some p0, gto_ToolID = Some p1\<rparr>]\<rparr>)"
    by simp
  with True show ?thesis by (simp add: d_Id_def)
next
  case False
  with assms(4) Read_get_failure [OF assms(1) assms(2) [unfolded d_Id_def] assms(3)]
  have "(out, d', w') =
      (FromErr (Errorf (''GetToolByIDWithContext failed %s'' @ [CHR 0x0A] @ ''%s'')
                  [ArgError (Opaque err), ArgResponse response]), d,
       \<lparr>remote = r', sdk_calls = sdk_calls w @
         [GetToolByIDCall \<lparr>gto_ToolchainID = Some p0, gto_ToolID = Some p1\<rparr>]\<rparr>)"
    by simp
  with False show ?thesis by simp
qed

theorem read_get_error_witness:
  "fst (resourceIBMCdToolchainToolSecuritycomplianceRead example_env example_meta
          (example_d ''tc-1/tool-9'' []) (example_world Absent)) = ReturnNil \<and>
   d_Id (fst (snd (resourceIBMCdToolchainToolSecuritycomplianceRead example_env example_meta
          (example_d ''tc-1/tool-9'' []) (example_world Absent)))) = [] \<and>
   fst (resourceIBMCdToolchainToolSecuritycomplianceRead example_env example_meta
          (example_d ''tc-1/tool-9'' []) (example_world Unavailable)) =
     FromErr (Errorf (''GetToolByIDWithContext failed %s'' @ [CHR 0x0A] @ ''%s'')
                [ArgError (Opaque ''service unavailable''),
                 ArgResponse (Some \<lparr>StatusCode = 503\<rparr>)]) \<and>
   d_Id (fst (snd (resourceIBMCdToolchainToolSecuritycomplianceRead example_env example_meta
          (example_d ''tc-1/tool-9'' []) (example_world Unavailable)))) = ''tc-1/tool-9''"
proof -
  have session: "CdToolchainV2 example_meta = Inr example_client"
    by (simp add: example_meta_def)
  have parts: "SepIdParts example_env (d_Id (example_d ''tc-1/tool-9'' [])) ''/'' =
      Inr (''tc-1'' # ''tool-9'' # [])"
    by (simp add: example_env_def example_d_def d_Id_def)
  have absent: "GetToolByIDWithContext example_client
      \<lparr>gto_ToolchainID = Some ''tc-1'', gto_ToolID = Some ''tool-9''\<rparr>
      (remote (example_world Absent)) =
      (Failure ''tool not found'' (Some \<lparr>StatusCode = 404\<rparr>), Absent)"
    by (simp add: example_client_def example_world_def)
  have unavailable: "GetToolByIDWithContext example_client
      \<lparr>gto_ToolchainID = Some ''tc-1'', gto_ToolID = Some ''tool-9''\<rparr>
      (remote (example_world Unavailable)) =
      (Failure ''service unavailable'' (Some \<lparr>StatusCode = 503\<rparr>), Unavailable)"
    by (simp add: example_client_def example_world_def)
  have run: "resourceIBMCdToolchainToolSecuritycomplianceRead example_env example_meta
      (example_d ''tc-1/tool-9'' []) (example_world r) =
      (fst (resourceIBMCdToolchainToolSecuritycomplianceRead example_env example_meta
         (example_d ''tc-1/tool-9'' []) (example_world r)),
       fst (snd (resourceIBMCdToolchainToolSecuritycomplianceRead example_env example_meta
         (example_d ''tc-1/tool-9'' []) (example_world r))),
       snd (snd (resourceIBMCdToolchainToolSecuritycomplianceRead example_env example_meta
         (example_d ''tc-1/tool-9'' []) (example_world r))))" for r
    by simp
  show ?thesis
    using read_get_error [OF session parts absent run]
      read_get_error [OF session parts unavailable run]
    by (simp add: example_d_def d_Id_def)
qed

text \<open>
  C7. The mapping from the response to the state is a function of the response: two
  runs of Read whose \<open>GetToolByID\<close> calls return the same tool, started from any two
  resource data and any two states of the world, leave the same values in the eleven
  attributes when both return without a diagnostic, and they return the same outcome
  when the framework rejects the same assignments in both.
\<close>

theorem read_mapping_deterministic:
  assumes "CdToolchainV2 meta1 = Inr client1"
    and "SepIdParts env (d_Id d1) ''/'' = Inr (p0 # p1 # ps)"
    and "GetToolByIDWithContext client1 \<lparr>gto_ToolchainID = Some p0, gto_ToolID = Some p1\<rparr> (remote w1)
           = (Success tool, r1)"
    and "CdToolchainV2 meta2 = Inr client2"
    and "SepIdParts env (d_Id d2) ''/'' = Inr (q0 # q1 # qs)"
    and "GetToolByIDWithContext client2 \<lparr>gto_ToolchainID = Some q0, gto_ToolID = Some q1\<rparr> (remote w2)
           = (Success tool, r2)"
  shows "(rd_set_error d1 = rd_set_error d2 \<longrightarrow>
            fst (resourceIBMCdToolchainToolSecuritycomplianceRead env meta1 d1 w1) =
            fst (resourceIBMCdToolchainToolSecuritycomplianceRead env meta2 d2 w2)) \<and>
         (fst (resourceIBMCdToolchainToolSecuritycomplianceRead env meta1 d1 w1) = ReturnNil \<and>
          fst (resourceIBMCdToolchainToolSecuritycomplianceRead env meta2 d2 w2) = ReturnNil \<longrightarrow>
            (\<forall>key \<in> {''toolchain_id'', ''parameters'', ''name'', ''resource_group_id'', ''crn'',
                       ''toolchain_crn'', ''href'', ''referent'', ''updated_at'', ''state'',
                       ''tool_id''}.
               rd_attrs (fst (snd (resourceIBMCdToolchainToolSecuritycomplianceRead env meta1 d1 w1))) key =
               rd_attrs (fst (snd (resourceIBMCdToolchainToolSecuritycomplianceRead env meta2 d2 w2))) key))"
proof -
  let ?w1 = "\<lparr>remote = r1, sdk_calls = sdk_calls w1 @
              [GetToolByIDCall \<lparr>gto_ToolchainID = Some p0, gto_ToolID = Some p1\<rparr>]\<rparr>"
  let ?w2 = "\<lparr>remote = r2, sdk_calls = sdk_calls w2 @
              [GetToolByIDCall \<lparr>gto_ToolchainID = Some q0, gto_ToolID = Some q1\<rparr>]\<rparr>"
  have run1: "resourceIBMCdToolchainToolSecuritycomplianceRead env meta1 d1 w1 =
      assign_all d1 ?w1 (mirrored_fields env tool)"
    using assms(1-3) by (simp add: d_Id_def Read_get_success)
  have run2: "resourceIBMCdToolchainToolSecuritycomplianceRead env meta2 d2 w2 =
      assign_all d2 ?w2 (mirrored_fields env tool)"
    using assms(4-6) by (simp add: d_Id_def Read_get_success)
  have same: "rd_attrs (fst (snd (assign_all d1 ?w1 (mirrored_fields env tool)))) key =
      rd_attrs (fst (snd (assign_all d2 ?w2 (mirrored_fields env tool)))) key"
    if ok: "fst (assign_all d1 ?w1 (mirrored_fields env tool)) = ReturnNil"
      "fst (assign_all d2 ?w2 (mirrored_fields env tool)) = ReturnNil"
    and key: "key \<in> set (map fst (mirrored_fields env tool))" for key
  proof -
    from key obtain v where v: "(key, v) \<in> set (mirrored_fields env tool)" by auto
    show ?thesis
      by (simp add: assign_all_sets [OF ok(1) mirrored_fields_distinct v]
            assign_all_sets [OF ok(2) mirrored_fields_distinct v])
  qed
  show ?thesis
    unfolding run1 run2
    using same by (auto simp: mirrored_fields_keys dest: assign_all_outcome_cong)
qed

theorem read_mapping_deterministic_witness:
  "fst (resourceIBMCdToolchainToolSecuritycomplianceRead example_env example_meta
          (example_d ''tc-1/tool-9'' []) (example_world Present)) =
   fst (resourceIBMCdToolchainToolSecuritycomplianceRead example_env example_meta
          ((example_d ''tc-1/tool-9'' [''name''])\<lparr>rd_attrs := Map.empty\<rparr>)
          ((example_world Present)\<lparr>sdk_calls := [DeleteToolCall
              \<lparr>dto_ToolchainID = Some ''tc-0'', dto_ToolID = Some ''tool-0''\<rparr>]\<rparr>)) \<and>
   rd_attrs (fst (snd (resourceIBMCdToolchainToolSecuritycomplianceRead example_env example_meta
          (example_d ''tc-1/tool-9'' []) (example_world Present)))) ''href'' =
   rd_attrs (fst (snd (resourceIBMCdToolchainToolSecuritycomplianceRead example_env example_meta
          ((example_d ''tc-1/tool-9'' [''name''])\<lparr>rd_attrs := Map.empty\<rparr>)
          ((example_world Present)\<lparr>sdk_calls := [DeleteToolCall
              \<lparr>dto_ToolchainID = Some ''tc-0'', dto_ToolID = Some ''tool-0''\<rparr>]\<rparr>)))) ''href''"
proof -
  have session: "CdToolchainV2 example_meta = Inr example_client"
    by (simp add: example_meta_def)
  have parts1: "SepIdParts example_env (d_Id (example_d ''tc-1/tool-9'' [])) ''/'' =
      Inr (''tc-1'' # ''tool-9'' # [])"
    by (simp add: example_env_def example_d_def d_Id_def)
  have parts2: "SepIdParts example_env
      (d_Id ((example_d ''tc-1/tool-9'' [''name''])\<lparr>rd_attrs := Map.empty\<rparr>)) ''/'' =
      Inr (''tc-1'' # ''tool-9'' # [])"
    by (simp add: example_env_def example_d_def d_Id_def)
  have call1: "GetToolByIDWithContext example_client
      \<lparr>gto_ToolchainID = Some ''tc-1'', gto_ToolID = Some ''tool-9''\<rparr>
      (remote (example_world Present)) = (Success example_tool, Present)"
    by (simp add: example_client_def example_world_def)
  have call2: "GetToolByIDWithContext example_client
      \<lparr>gto_ToolchainID = Some ''tc-1'', gto_ToolID = Some ''tool-9''\<rparr>
      (remote ((example_world Present)\<lparr>sdk_calls := [DeleteToolCall
              \<lparr>dto_ToolchainID = Some ''tc-0'', dto_ToolID = Some ''tool-0''\<rparr>]\<rparr>)) =
      (Success example_tool, Present)"
    by (simp add: example_client_def example_world_def)
  have ok1: "fst (resourceIBMCdToolchainToolSecuritycomplianceRead example_env example_meta
      (example_d ''tc-1/tool-9'' []) (example_world Present)) = ReturnNil"
    using parts1
    by (simp add: Read_get_success [OF session _ call1] d_Id_def assign_all_success_iff
          example_d_def)
  have ok2: "fst (resourceIBMCdToolchainToolSecuritycomplianceRead example_env example_meta
      ((example_d ''tc-1/tool-9'' [''name''])\<lparr>rd_attrs := Map.empty\<rparr>)
      ((example_world Present)\<lparr>sdk_calls := [DeleteToolCall
          \<lparr>dto_ToolchainID = Some ''tc-0'', dto_ToolID = Some ''tool-0''\<rparr>]\<rparr>)) = ReturnNil"
    using parts2
    by (simp add: Read_get_success [OF session _ call2] d_Id_def assign_all_success_iff
          example_d_def)
  show ?thesis
    using read_mapping_deterministic [OF session parts1 call1 session parts2 call2] ok1 ok2
    by (simp add: example_d_def)
qed

subsection \<open>Create, Update and Delete, branch by branch\<close>

lemma Create_no_client:
  "CdToolchainV2 meta = Inl err \<Longrightarrow>
     resourceIBMCdToolchainToolSecuritycomplianceCreate env meta d w = (FromErr (Opaque err), d, w)"
  by (simp add: resourceIBMCdToolchainToolSecuritycomplianceCreate_def)

lemma Create_call:
  assumes "CdToolchainV2 meta = Inr client"
    and "CreateToolWithContext client (create_request env d) (remote w) = (res, r')"
  shows "resourceIBMCdToolchainToolSecuritycomplianceCreate env meta d w =
     (case res of
        Failure err response \<Rightarrow>
          (FromErr (Errorf (''CreateToolWithContext failed %s'' @ [CHR 0x0A] @ ''%s'')
                      [ArgError (Opaque err), ArgResponse response]), d,
           \<lparr>remote = r', sdk_calls = sdk_calls w @ [CreateToolCall (create_request env d)]\<rparr>)
      | Success toolchainToolPost \<Rightarrow>
          (case post_ID toolchainToolPost of
             None \<Rightarrow>
               (Panic, d,
                \<lparr>remote = r', sdk_calls = sdk_calls w @ [CreateToolCall (create_request env d)]\<rparr>)
           | Some toolID \<Rightarrow>
               resourceIBMCdToolchainToolSecuritycomplianceRead env meta
                 (d_SetId d (d_Get d ''toolchain_id'' @ ''/'' @ toolID))
                 \<lparr>remote = r', sdk_calls = sdk_calls w @ [CreateToolCall (create_request env d)]\<rparr>))"
proof (cases "snd (d_GetOk d ''name'')")
  case True
  then have request: "create_request env d =
      \<lparr>cto_ToolchainID = Some (d_Get d ''toolchain_id''),
       cto_ToolTypeID = Some ''security_compliance'',
       cto_Parameters = Some (GetParametersForCreate env d
         ResourceIBMCdToolchainToolSecuritycompliance [''api_key'' \<mapsto> ''api-key'']),
       cto_Name = Some (d_Get d ''name'')\<rparr>"
    by (simp add: create_request_def)
  show ?thesis
    unfolding resourceIBMCdToolchainToolSecuritycomplianceCreate_def
    using assms True
    by (simp add: Let_def request invoke_def split: sdk_result.splits option.splits)
next
  case False
  then have request: "create_request env d =
      \<lparr>cto_ToolchainID = Some (d_Get d ''toolchain_id''),
       cto_ToolTypeID = Some ''security_compliance'',
       cto_Parameters = Some (GetParametersForCreate env d
         ResourceIBMCdToolchainToolSecuritycompliance [''api_key'' \<mapsto> ''api-key'']),
       cto_Name = None\<rparr>"
    by (simp add: create_request_def)
  show ?thesis
    unfolding resourceIBMCdToolchainToolSecuritycomplianceCreate_def
    using assms False
    by (simp add: Let_def request invoke_def split: sdk_result.splits option.splits)
qed

lemma Update_no_client:
  "CdToolchainV2 meta = Inl err \<Longrightarrow>
     resourceIBMCdToolchainToolSecuritycomplianceUpdate env meta d w = (FromErr (Opaque err), d, w)"
  by (simp add: resourceIBMCdToolchainToolSecuritycomplianceUpdate_def)

lemma Update_no_parts:
  "CdToolchainV2 meta = Inr client \<Longrightarrow> SepIdParts env (rd_id d) ''/'' = Inl err \<Longrightarrow>
     resourceIBMCdToolchainToolSecuritycomplianceUpdate env meta d w = (FromErr (Opaque err), d, w)"
  by (simp add: resourceIBMCdToolchainToolSecuritycomplianceUpdate_def d_Id_def)

lemma Update_short_parts:
  "CdToolchainV2 meta = Inr client \<Longrightarrow> SepIdParts env (rd_id d) ''/'' = Inr parts \<Longrightarrow>
   length parts < 2 \<Longrightarrow>
     resourceIBMCdToolchainToolSecuritycomplianceUpdate env meta d w = (Panic, d, w)"
  by (cases parts rule: remdups_adj.cases)
    (simp_all add: resourceIBMCdToolchainToolSecuritycomplianceUpdate_def d_Id_def)

lemma Update_toolchain_id_changed:
  assumes "CdToolchainV2 meta = Inr client"
    and "SepIdParts env (rd_id d) ''/'' = Inr (p0 # p1 # ps)"
    and "d_HasChange d ''toolchain_id''"
  shows "resourceIBMCdToolchainToolSecuritycomplianceUpdate env meta d w =
     (FromErr (Errorf (''Cannot update resource property '' @ [CHR 0x22] @ ''%s'' @ [CHR 0x22] @
                       '' with the ForceNew annotation.'' @
                       '' The resource must be re-created to update this property.'')
                 [ArgString ''toolchain_id'']), d, w)"
  unfolding resourceIBMCdToolchainToolSecuritycomplianceUpdate_def
  using assms by (simp add: d_Id_def Let_def)

lemma Update_no_change:
  assumes "CdToolchainV2 meta = Inr client"
    and "SepIdParts env (rd_id d) ''/'' = Inr (p0 # p1 # ps)"
    and "\<not> d_HasChange d ''toolchain_id''"
    and "\<not> d_HasChange d ''parameters''" and "\<not> d_HasChange d ''name''"
  shows "resourceIBMCdToolchainToolSecuritycomplianceUpdate env meta d w =
     resourceIBMCdToolchainToolSecuritycomplianceRead env meta d w"
  unfolding resourceIBMCdToolchainToolSecuritycomplianceUpdate_def
  using assms by (simp add: d_Id_def Let_def)

lemma Update_call:
  assumes "CdToolchainV2 meta = Inr client"
    and "SepIdParts env (rd_id d) ''/'' = Inr (p0 # p1 # ps)"
    and "\<not> d_HasChange d ''toolchain_id''"
    and "d_HasChange d ''parameters'' \<or> d_HasChange d ''name''"
    and "UpdateToolWithContext client (update_request env d p0 p1) (remote w) = (res, r')"
  shows "resourceIBMCdToolchainToolSecuritycomplianceUpdate env meta d w =
     (case res of
        Failure err response \<Rightarrow>
          (FromErr (Errorf (''UpdateToolWithContext failed %s'' @ [CHR 0x0A] @ ''%s'')
                      [ArgError (Opaque err), ArgResponse response]), d,
           \<lparr>remote = r', sdk_calls = sdk_calls w @ [UpdateToolCall (update_request env d p0 p1)]\<rparr>)
      | Success u \<Rightarrow>
          resourceIBMCdToolchainToolSecuritycomplianceRead env meta d
            \<lparr>remote = r', sdk_calls = sdk_calls w @ [UpdateToolCall (update_request env d p0 p1)]\<rparr>)"
proof -
  have request:
    "\<lparr>uto_ToolchainID = Some p0, uto_ToolID = Some p1,
      uto_ToolchainToolPrototypePatch = Some
        \<lparr>patch_Name = (if d_HasChange d ''name'' then Some (d_Get d ''name'') else None),
         patch_Parameters =
           (if d_HasChange d ''parameters''
            then Some (GetParametersForUpdate env d
              ResourceIBMCdToolchainToolSecuritycompliance [''api_key'' \<mapsto> ''api-key''])
            else None)\<rparr>\<rparr> = update_request env d p0 p1"
    by (simp add: update_request_def)
  show ?thesis
  proof (cases "d_HasChange d ''parameters''")
    case True
    with assms request show ?thesis
      unfolding resourceIBMCdToolchainToolSecuritycomplianceUpdate_def
      by (cases "d_HasChange d ''name''")
        (simp_all add: d_Id_def Let_def invoke_def split: sdk_result.splits)
  next
    case False
    with assms request show ?thesis
      unfolding resourceIBMCdToolchainToolSecuritycomplianceUpdate_def
      by (simp add: d_Id_def Let_def invoke_def split: sdk_result.splits)
  qed
qed

lemma Delete_no_client:
  "CdToolchainV2 meta = Inl err \<Longrightarrow>
     resourceIBMCdToolchainToolSecuritycomplianceDelete env meta d w = (FromErr (Opaque err), d, w)"
  by (simp add: resourceIBMCdToolchainToolSecuritycomplianceDelete_def)

lemma Delete_no_parts:
  "CdToolchainV2 meta = Inr client \<Longrightarrow> SepIdParts env (rd_id d) ''/'' = Inl err \<Longrightarrow>
     resourceIBMCdToolchainToolSecuritycomplianceDelete env meta d w = (FromErr (Opaque err), d, w)"
  by (simp add: resourceIBMCdToolchainToolSecuritycomplianceDelete_def d_Id_def)

lemma Delete_short_parts:
  "CdToolchainV2 meta = Inr client \<Longrightarrow> SepIdParts env (rd_id d) ''/'' = Inr parts \<Longrightarrow>
   length parts < 2 \<Longrightarrow>
     resourceIBMCdToolchainToolSecuritycomplianceDelete env meta d w = (Panic, d, w)"
  by (cases parts rule: remdups_adj.cases)
    (simp_all add: resourceIBMCdToolchainToolSecuritycomplianceDelete_def d_Id_def)

lemma Delete_call:
  assumes "CdToolchainV2 meta = Inr client"
    and "SepIdParts env (rd_id d) ''/'' = Inr (p0 # p1 # ps)"
    and "DeleteToolWithContext client \<lparr>dto_ToolchainID = Some p0, dto_ToolID = Some p1\<rparr> (remote w)
           = (res, r')"
  shows "resourceIBMCdToolchainToolSecuritycomplianceDelete env meta d w =
     (case res of
        Failure err response \<Rightarrow>
          (FromErr (Errorf (''DeleteToolWithContext failed %s'' @ [CHR 0x0A] @ ''%s'')
                      [ArgError (Opaque err), ArgResponse response]), d,
           \<lparr>remote = r', sdk_calls = sdk_calls w @
              [DeleteToolCall \<lparr>dto_ToolchainID = Some p0, dto_ToolID = Some p1\<rparr>]\<rparr>)
      | Success u \<Rightarrow>
          (ReturnNil, d\<lparr>rd_id := []\<rparr>,
           \<lparr>remote = r', sdk_calls = sdk_calls w @
              [DeleteToolCall \<lparr>dto_ToolchainID = Some p0, dto_ToolID = Some p1\<rparr>]\<rparr>))"
  unfolding resourceIBMCdToolchainToolSecuritycomplianceDelete_def
  using assms
  by (simp add: d_Id_def d_SetId_def Let_def invoke_def split: sdk_result.splits)

subsection \<open>The SDK calls a handler makes\<close>

lemma Read_calls_only_get:
  "c \<in> set (sdk_calls (snd (snd (resourceIBMCdToolchainToolSecuritycomplianceRead env meta d w)))) \<Longrightarrow>
     c \<in> set (sdk_calls w) \<or> is_GetToolByID c"
  by (auto simp: Read_calls split: sum.splits list.splits)

lemma Read_invocations:
  "invocations is_GetToolByID
     (snd (snd (resourceIBMCdToolchainToolSecuritycomplianceRead env meta d w))) =
   invocations is_GetToolByID w +
     (if client_obtained meta \<and> id_separated env d then 1 else 0)"
  "invocations is_CreateTool
     (snd (snd (resourceIBMCdToolchainToolSecuritycomplianceRead env meta d w))) =
   invocations is_CreateTool w"
  "invocations is_UpdateTool
     (snd (snd (resourceIBMCdToolchainToolSecuritycomplianceRead env meta d w))) =
   invocations is_UpdateTool w"
  "invocations is_DeleteTool
     (snd (snd (resourceIBMCdToolchainToolSecuritycomplianceRead env meta d w))) =
   invocations is_DeleteTool w"
  by (simp_all add: invocations_def Read_calls client_obtained_def id_separated_def d_Id_def
        split: sum.splits list.splits)

lemma invocations_append:
  "invocations method \<lparr>remote = r, sdk_calls = sdk_calls w @ [c]\<rparr> =
     invocations method w + (if method c then 1 else 0)"
  by (simp add: invocations_def)

lemma Create_invocations:
  "invocations is_CreateTool
     (snd (snd (resourceIBMCdToolchainToolSecuritycomplianceCreate env meta d w))) =
   invocations is_CreateTool w + (if client_obtained meta then 1 else 0)"
proof (cases "CdToolchainV2 meta")
  case (Inl err)
  then show ?thesis by (simp add: Create_no_client client_obtained_def)
next
  case (Inr client)
  obtain res r' where call:
    "CreateToolWithContext client (create_request env d) (remote w) = (res, r')"
    by (cases "CreateToolWithContext client (create_request env d) (remote w)")
  from Inr show ?thesis
    by (simp add: Create_call [OF Inr call] client_obtained_def Read_invocations
          invocations_append split: sdk_result.splits option.splits)
qed

lemma Create_requests:
  assumes "CreateToolCall options \<in>
      set (sdk_calls (snd (snd (resourceIBMCdToolchainToolSecuritycomplianceCreate env meta d w))))"
    and "CreateToolCall options \<notin> set (sdk_calls w)"
  shows "options = create_request env d"
proof (cases "CdToolchainV2 meta")
  case (Inl err)
  with assms show ?thesis by (simp add: Create_no_client)
next
  case (Inr client)
  obtain res r' where call:
    "CreateToolWithContext client (create_request env d) (remote w) = (res, r')"
    by (cases "CreateToolWithContext client (create_request env d) (remote w)")
  show ?thesis
  proof (cases res)
    case (Failure err response)
    with assms show ?thesis by (simp add: Create_call [OF Inr call])
  next
    case (Success toolchainToolPost)
    show ?thesis
    proof (cases "post_ID toolchainToolPost")
      case None
      with Success assms show ?thesis by (simp add: Create_call [OF Inr call])
    next
      case (Some toolID)
      with Success assms(1)
      have "CreateToolCall options \<in> set (sdk_calls (snd (snd
          (resourceIBMCdToolchainToolSecuritycomplianceRead env meta
             (d_SetId d (d_Get d ''toolchain_id'' @ ''/'' @ toolID))
             \<lparr>remote = r', sdk_calls = sdk_calls w @ [CreateToolCall (create_request env d)]\<rparr>))))"
        by (simp add: Create_call [OF Inr call])
      from Read_calls_only_get [OF this] assms(2) show ?thesis by auto
    qed
  qed
qed

lemma Update_invocations:
  "invocations is_UpdateTool
     (snd (snd (resourceIBMCdToolchainToolSecuritycomplianceUpdate env meta d w))) =
   invocations is_UpdateTool w +
     (if client_obtained meta \<and> id_separated env d \<and> \<not> d_HasChange d ''toolchain_id'' \<and>
         (d_HasChange d ''parameters'' \<or> d_HasChange d ''name'')
      then 1 else 0)"
proof (cases "CdToolchainV2 meta")
  case (Inl err)
  then show ?thesis by (simp add: Update_no_client client_obtained_def)
next
  case (Inr client)
  show ?thesis
  proof (cases "SepIdParts env (rd_id d) ''/''")
    case (Inl err)
    with Inr show ?thesis by (simp add: Update_no_parts id_separated_def d_Id_def)
  next
    case parts: (Inr parts)
    show ?thesis
    proof (cases "length parts < 2")
      case True
      with Inr parts show ?thesis
        by (cases parts rule: remdups_adj.cases)
          (simp_all add: Update_short_parts id_separated_def d_Id_def)
    next
      case False
      then obtain p0 p1 ps where ps: "parts = p0 # p1 # ps"
        by (cases parts rule: remdups_adj.cases) simp_all
      have ready: "client_obtained meta" "id_separated env d"
        using Inr parts ps by (simp_all add: client_obtained_def id_separated_def d_Id_def)
      note parts' = parts [unfolded ps]
      show ?thesis
      proof (cases "d_HasChange d ''toolchain_id''")
        case True
        then show ?thesis by (simp add: Update_toolchain_id_changed [OF Inr parts'])
      next
        case unchanged: False
        show ?thesis
        proof (cases "d_HasChange d ''parameters'' \<or> d_HasChange d ''name''")
          case True
          obtain res r' where call:
            "UpdateToolWithContext client (update_request env d p0 p1) (remote w) = (res, r')"
            by (cases "UpdateToolWithContext client (update_request env d p0 p1) (remote w)")
          from True unchanged ready show ?thesis
            by (simp add: Update_call [OF Inr parts' unchanged True call] Read_invocations
                  invocations_append split: sdk_result.splits)
        next
          case False
          with unchanged show ?thesis
            by (simp add: Update_no_change [OF Inr parts'] Read_invocations)
        qed
      qed
    qed
  qed
qed

lemma Delete_invocations:
  "invocations is_DeleteTool
     (snd (snd (resourceIBMCdToolchainToolSecuritycomplianceDelete env meta d w))) =
   invocations is_DeleteTool w + (if client_obtained meta \<and> id_separated env d then 1 else 0)"
proof (cases "CdToolchainV2 meta")
  case (Inl err)
  then show ?thesis by (simp add: Delete_no_client client_obtained_def)
next
  case (Inr client)
  show ?thesis
  proof (cases "SepIdParts env (rd_id d) ''/''")
    case (Inl err)
    with Inr show ?thesis by (simp add: Delete_no_parts id_separated_def d_Id_def)
  next
    case parts: (Inr parts)
    show ?thesis
    proof (cases "length parts < 2")
      case True
      with Inr parts show ?thesis
        by (cases parts rule: remdups_adj.cases)
          (simp_all add: Delete_short_parts id_separated_def d_Id_def)
    next
      case False
      then obtain p0 p1 ps where ps: "parts = p0 # p1 # ps"
        by (cases parts rule: remdups_adj.cases) simp_all
      obtain res r' where call:
        "DeleteToolWithContext client \<lparr>dto_ToolchainID = Some p0, dto_ToolID = Some p1\<rparr> (remote w)
           = (res, r')"
        by (cases "DeleteToolWithContext client \<lparr>dto_ToolchainID = Some p0, dto_ToolID = Some p1\<rparr>
                     (remote w)")
      from Inr parts ps show ?thesis
        by (simp add: Delete_call [OF Inr parts [unfolded ps] call] client_obtained_def
              id_separated_def d_Id_def invocations_append split: sdk_result.splits)
    qed
  qed
qed

subsection \<open>Create\<close>

text \<open>
  C1, as the code has it. When the SDK client is obtained, Create builds the request
  \<open>create_request\<close> (the toolchain ID taken from the state, the parameters built by
  \<open>GetParametersForCreate\<close> with \<open>api_key\<close> remapped to \<open>api-key\<close>, the name only
  when it is set) and invokes \<open>CreateTool\<close> with it, once. When the call fails it
  returns the error diagnostic and leaves the resource data as it was. When the call
  succeeds and returns a tool ID, it sets the resource ID to the toolchain ID, a slash
  and the tool ID, and the result is that of Read from there.
\<close>

theorem create_marshals_and_delegates:
  assumes "CdToolchainV2 meta = Inr cdToolchainClient"
    and "CreateToolWithContext cdToolchainClient (create_request env d) (remote w) = (res, r')"
  shows "create_request env d =
           \<lparr>cto_ToolchainID = Some (d_Get d ''toolchain_id''),
            cto_ToolTypeID = Some ''security_compliance'',
            cto_Parameters = Some (GetParametersForCreate env d
              ResourceIBMCdToolchainToolSecuritycompliance [''api_key'' \<mapsto> ''api-key'']),
            cto_Name = (if snd (d_GetOk d ''name'') then Some (d_Get d ''name'') else None)\<rparr> \<and>
         invocations is_CreateTool
           (snd (snd (resourceIBMCdToolchainToolSecuritycomplianceCreate env meta d w))) =
           invocations is_CreateTool w + 1 \<and>
         (\<forall>err response. res = Failure err response \<longrightarrow>
            resourceIBMCdToolchainToolSecuritycomplianceCreate env meta d w =
              (FromErr (Errorf (''CreateToolWithContext failed %s'' @ [CHR 0x0A] @ ''%s'')
                          [ArgError (Opaque err), ArgResponse response]), d,
               \<lparr>remote = r', sdk_calls = sdk_calls w @ [CreateToolCall (create_request env d)]\<rparr>)) \<and>
         (\<forall>toolchainToolPost toolID.
            res = Success toolchainToolPost \<and> post_ID toolchainToolPost = Some toolID \<longrightarrow>
            resourceIBMCdToolchainToolSecuritycomplianceCreate env meta d w =
              resourceIBMCdToolchainToolSecuritycomplianceRead env meta
                (d_SetId d (d_Get d ''toolchain_id'' @ ''/'' @ toolID))
                \<lparr>remote = r', sdk_calls = sdk_calls w @ [CreateToolCall (create_request env d)]\<rparr>)"
proof (intro conjI allI impI)
  show "create_request env d =
           \<lparr>cto_ToolchainID = Some (d_Get d ''toolchain_id''),
            cto_ToolTypeID = Some ''security_compliance'',
            cto_Parameters = Some (GetParametersForCreate env d
              ResourceIBMCdToolchainToolSecuritycompliance [''api_key'' \<mapsto> ''api-key'']),
            cto_Name = (if snd (d_GetOk d ''name'') then Some (d_Get d ''name'') else None)\<rparr>"
    by (simp add: create_request_def)
  show "invocations is_CreateTool
           (snd (snd (resourceIBMCdToolchainToolSecuritycomplianceCreate env meta d w))) =
           invocations is_CreateTool w + 1"
    using assms(1) by (simp add: Create_invocations client_obtained_def)
next
  fix err response
  assume "res = Failure err response"
  then show "resourceIBMCdToolchainToolSecuritycomplianceCreate env meta d w =
      (FromErr (Errorf (''CreateToolWithContext failed %s'' @ [CHR 0x0A] @ ''%s'')
                  [ArgError (Opaque err), ArgResponse response]), d,
       \<lparr>remote = r', sdk_calls = sdk_calls w @ [CreateToolCall (create_request env d)]\<rparr>)"
    by (simp add: Create_call [OF assms])
next
  fix toolchainToolPost toolID
  assume "res = Success toolchainToolPost \<and> post_ID toolchainToolPost = Some toolID"
  then show "resourceIBMCdToolchainToolSecuritycomplianceCreate env meta d w =
      resourceIBMCdToolchainToolSecuritycomplianceRead env meta
        (d_SetId d (d_Get d ''toolchain_id'' @ ''/'' @ toolID))
        \<lparr>remote = r', sdk_calls = sdk_calls w @ [CreateToolCall (create_request env d)]\<rparr>"
    by (simp add: Create_call [OF assms])
qed

theorem create_marshals_and_delegates_witness:
  "resourceIBMCdToolchainToolSecuritycomplianceCreate example_env example_meta
     (example_d [] []) (example_world Absent) =
   resourceIBMCdToolchainToolSecuritycomplianceRead example_env example_meta
     (d_SetId (example_d [] []) ''tc-1/tool-9'')
     \<lparr>remote = Present,
      sdk_calls = [CreateToolCall
        \<lparr>cto_ToolchainID = Some ''tc-1'', cto_ToolTypeID = Some ''security_compliance'',
         cto_Parameters = Some [(''api-key'', ''secret'')], cto_Name = Some ''scc''\<rparr>]\<rparr>"
proof -
  have session: "CdToolchainV2 example_meta = Inr example_client"
    by (simp add: example_meta_def)
  have call: "CreateToolWithContext example_client (create_request example_env (example_d [] []))
      (remote (example_world Absent)) = (Success \<lparr>post_ID = Some ''tool-9''\<rparr>, Present)"
    by (simp add: example_client_def example_world_def)
  have request: "create_request example_env (example_d [] []) =
      \<lparr>cto_ToolchainID = Some ''tc-1'', cto_ToolTypeID = Some ''security_compliance'',
       cto_Parameters = Some [(''api-key'', ''secret'')], cto_Name = Some ''scc''\<rparr>"
    by (simp add: create_request_def example_env_def example_d_def d_Get_def d_GetOk_def)
  have tc: "d_Get (example_d [] []) ''toolchain_id'' = ''tc-1''"
    by (simp add: example_d_def d_Get_def)
  show ?thesis
    using create_marshals_and_delegates [OF session call]
    by (simp add: request tc example_world_def)
qed

text \<open>
  C1 as stated fails when the SDK client cannot be obtained: Create returns the error
  and \<open>CreateTool\<close> is not invoked.
\<close>

theorem create_no_client_counterexample:
  "resourceIBMCdToolchainToolSecuritycomplianceCreate example_env example_meta_no_client
     (example_d [] []) (example_world Absent) =
   (FromErr (Opaque ''no client''), example_d [] [], \<lparr>remote = Absent, sdk_calls = []\<rparr>)"
  by (simp add: Create_no_client example_meta_no_client_def example_world_def)

text \<open>
  C9. Every \<open>CreateTool\<close> request that Create adds to the calls has the tool type ID
  \<open>security_compliance\<close>, whatever the state, the collaborators and the service.
\<close>

theorem create_tool_type_constant:
  assumes "CreateToolCall createToolOptions \<in>
      set (sdk_calls (snd (snd (resourceIBMCdToolchainToolSecuritycomplianceCreate env meta d w))))"
    and "CreateToolCall createToolOptions \<notin> set (sdk_calls w)"
  shows "cto_ToolTypeID createToolOptions = Some ''security_compliance''"
  using Create_requests [OF assms] by (simp add: create_request_def)

theorem create_tool_type_constant_witness:
  "CreateToolCall (create_request example_env (example_d [] [])) \<in>
     set (sdk_calls (snd (snd (resourceIBMCdToolchainToolSecuritycomplianceCreate
       example_env example_meta (example_d [] []) (example_world Absent))))) \<and>
   cto_ToolTypeID (create_request example_env (example_d [] [])) = Some ''security_compliance''"
proof -
  have session: "CdToolchainV2 example_meta = Inr example_client"
    by (simp add: example_meta_def)
  have call: "CreateToolWithContext example_client (create_request example_env (example_d [] []))
      (remote (example_world Absent)) = (Success \<lparr>post_ID = Some ''tool-9''\<rparr>, Present)"
    by (simp add: example_client_def example_world_def)
  have made: "CreateToolCall (create_request example_env (example_d [] [])) \<in>
     set (sdk_calls (snd (snd (resourceIBMCdToolchainToolSecuritycomplianceCreate
       example_env example_meta (example_d [] []) (example_world Absent)))))"
    by (simp add: Create_call [OF session call] Read_calls)
  have fresh: "CreateToolCall (create_request example_env (example_d [] [])) \<notin>
     set (sdk_calls (example_world Absent))"
    by (simp add: example_world_def)
  from made create_tool_type_constant [OF made fresh] show ?thesis by simp
qed

subsection \<open>Delete\<close>

text \<open>
  C4, as the code has it. When the SDK client is obtained and the resource ID separates
  into at least two parts, Delete invokes \<open>DeleteTool\<close> with the first part as the
  toolchain ID and the second as the tool ID. When that call succeeds it sets the
  resource ID to the empty string and returns no diagnostic; when it fails it returns
  the error diagnostic and leaves the resource data, the ID with it, as it was.
\<close>

theorem delete_invokes_sdk:
  assumes "CdToolchainV2 meta = Inr cdToolchainClient"
    and "SepIdParts env (d_Id d) ''/'' = Inr (p0 # p1 # ps)"
    and "DeleteToolWithContext cdToolchainClient
           \<lparr>dto_ToolchainID = Some p0, dto_ToolID = Some p1\<rparr> (remote w) = (res, r')"
    and "resourceIBMCdToolchainToolSecuritycomplianceDelete env meta d w = (out, d', w')"
  shows "w' = \<lparr>remote = r', sdk_calls = sdk_calls w @
                 [DeleteToolCall \<lparr>dto_ToolchainID = Some p0, dto_ToolID = Some p1\<rparr>]\<rparr> \<and>
         (\<forall>u. res = Success u \<longrightarrow>
            out = ReturnNil \<and> d_Id d' = [] \<and> rd_attrs d' = rd_attrs d) \<and>
         (\<forall>err response. res = Failure err response \<longrightarrow>
            out = FromErr (Errorf (''DeleteToolWithContext failed %s'' @ [CHR 0x0A] @ ''%s'')
                             [ArgError (Opaque err), ArgResponse response]) \<and>
            d' = d)"
  using assms(4) Delete_call [OF assms(1) assms(2) [unfolded d_Id_def] assms(3)]
  by (cases res) (auto simp: d_Id_def)

theorem delete_invokes_sdk_witness:
  "resourceIBMCdToolchainToolSecuritycomplianceDelete example_env example_meta
     (example_d ''tc-1/tool-9'' []) (example_world Present) =
   (ReturnNil, example_d [] [],
    \<lparr>remote = Absent, sdk_calls =
       [DeleteToolCall \<lparr>dto_ToolchainID = Some ''tc-1'', dto_ToolID = Some ''tool-9''\<rparr>]\<rparr>) \<and>
   fst (resourceIBMCdToolchainToolSecuritycomplianceDelete example_env example_meta
     (example_d ''tc-1/tool-9'' []) (example_world Unavailable)) =
     FromErr (Errorf (''DeleteToolWithContext failed %s'' @ [CHR 0x0A] @ ''%s'')
                [ArgError (Opaque ''service unavailable''),
                 ArgResponse (Some \<lparr>StatusCode = 503\<rparr>)]) \<and>
   fst (snd (resourceIBMCdToolchainToolSecuritycomplianceDelete example_env example_meta
     (example_d ''tc-1/tool-9'' []) (example_world Unavailable))) = example_d ''tc-1/tool-9'' []"
proof -
  have session: "CdToolchainV2 example_meta = Inr example_client"
    by (simp add: example_meta_def)
  have parts: "SepIdParts example_env (d_Id (example_d ''tc-1/tool-9'' [])) ''/'' =
      Inr (''tc-1'' # ''tool-9'' # [])"
    by (simp add: example_env_def example_d_def d_Id_def)
  have present: "DeleteToolWithContext example_client
      \<lparr>dto_ToolchainID = Some ''tc-1'', dto_ToolID = Some ''tool-9''\<rparr>
      (remote (example_world Present)) = (Success (), Absent)"
    by (simp add: example_client_def example_world_def)
  have unavailable: "DeleteToolWithContext example_client
      \<lparr>dto_ToolchainID = Some ''tc-1'', dto_ToolID = Some ''tool-9''\<rparr>
      (remote (example_world Unavailable)) =
      (Failure ''service unavailable'' (Some \<lparr>StatusCode = 503\<rparr>), Unavailable)"
    by (simp add: example_client_def example_world_def)
  have run: "resourceIBMCdToolchainToolSecuritycomplianceDelete example_env example_meta
      (example_d ''tc-1/tool-9'' []) (example_world r) =
      (fst (resourceIBMCdToolchainToolSecuritycomplianceDelete example_env example_meta
         (example_d ''tc-1/tool-9'' []) (example_world r)),
       fst (snd (resourceIBMCdToolchainToolSecuritycomplianceDelete example_env example_meta
         (example_d ''tc-1/tool-9'' []) (example_world r))),
       snd (snd (resourceIBMCdToolchainToolSecuritycomplianceDelete example_env example_meta
         (example_d ''tc-1/tool-9'' []) (example_world r))))" for r
    by simp
  have deleted: "resourceIBMCdToolchainToolSecuritycomplianceDelete example_env example_meta
     (example_d ''tc-1/tool-9'' []) (example_world Present) =
     (ReturnNil, example_d [] [],
      \<lparr>remote = Absent, sdk_calls =
         [DeleteToolCall \<lparr>dto_ToolchainID = Some ''tc-1'', dto_ToolID = Some ''tool-9''\<rparr>]\<rparr>)"
    using delete_invokes_sdk [OF session parts present run]
      Delete_call [OF session parts [unfolded d_Id_def] present]
    by (simp add: example_world_def example_d_def)
  show ?thesis
    using deleted delete_invokes_sdk [OF session parts unavailable run]
    by simp
qed

text \<open>
  C4 as stated fails when the SDK client cannot be obtained: Delete returns the error
  and \<open>DeleteTool\<close> is not invoked.
\<close>

theorem delete_no_client_counterexample:
  "resourceIBMCdToolchainToolSecuritycomplianceDelete example_env example_meta_no_client
     (example_d ''tc-1/tool-9'' []) (example_world Present) =
   (FromErr (Opaque ''no client''), example_d ''tc-1/tool-9'' [],
    \<lparr>remote = Present, sdk_calls = []\<rparr>)"
  by (simp add: Delete_no_client example_meta_no_client_def example_world_def)

subsection \<open>Update\<close>

text \<open>
  C10, as the code has it. When \<open>toolchain_id\<close> has changed, Update returns without
  invoking any method of the SDK and leaves the resource data and the remote service as
  they were, and what it returns is not nil. When the SDK client is obtained and the
  resource ID separates into at least two parts, what it returns is the error diagnostic
  that names \<open>toolchain_id\<close> as a property with the ForceNew annotation.
\<close>

theorem update_force_new:
  assumes "d_HasChange d ''toolchain_id''"
    and "resourceIBMCdToolchainToolSecuritycomplianceUpdate env meta d w = (out, d', w')"
  shows "d' = d \<and> w' = w \<and> out \<noteq> ReturnNil \<and>
         (client_obtained meta \<and> id_separated env d \<longrightarrow>
            out = FromErr (Errorf (''Cannot update resource property '' @ [CHR 0x22] @ ''%s'' @
                                   [CHR 0x22] @ '' with the ForceNew annotation.'' @
                                   '' The resource must be re-created to update this property.'')
                             [ArgString ''toolchain_id'']))"
proof (cases "CdToolchainV2 meta")
  case (Inl err)
  with assms(2) show ?thesis by (auto simp: Update_no_client client_obtained_def)
next
  case (Inr client)
  show ?thesis
  proof (cases "SepIdParts env (rd_id d) ''/''")
    case (Inl err)
    with Inr assms(2) show ?thesis by (auto simp: Update_no_parts id_separated_def d_Id_def)
  next
    case parts: (Inr parts)
    show ?thesis
    proof (cases "length parts < 2")
      case True
      with Inr parts assms(2) show ?thesis
        by (cases parts rule: remdups_adj.cases)
          (auto simp: Update_short_parts id_separated_def d_Id_def)
    next
      case False
      then obtain p0 p1 ps where ps: "parts = p0 # p1 # ps"
        by (cases parts rule: remdups_adj.cases) simp_all
      from assms(2) show ?thesis
        by (auto simp: Update_toolchain_id_changed [OF Inr parts [unfolded ps] assms(1)])
    qed
  qed
qed

theorem update_force_new_witness:
  "resourceIBMCdToolchainToolSecuritycomplianceUpdate example_env example_meta
     (example_d ''tc-1/tool-9'' [''toolchain_id'']) (example_world Present) =
   (FromErr (Errorf (''Cannot update resource property '' @ [CHR 0x22] @ ''%s'' @
                     [CHR 0x22] @ '' with the ForceNew annotation.'' @
                     '' The resource must be re-created to update this property.'')
               [ArgString ''toolchain_id'']),
    example_d ''tc-1/tool-9'' [''toolchain_id''], example_world Present)"
proof -
  have changed: "d_HasChange (example_d ''tc-1/tool-9'' [''toolchain_id'']) ''toolchain_id''"
    by (simp add: d_HasChange_def example_d_def)
  have ready: "client_obtained example_meta"
    "id_separated example_env (example_d ''tc-1/tool-9'' [''toolchain_id''])"
    by (simp_all add: client_obtained_def example_meta_def id_separated_def example_env_def
          example_d_def d_Id_def)
  have run: "resourceIBMCdToolchainToolSecuritycomplianceUpdate example_env example_meta
      (example_d ''tc-1/tool-9'' [''toolchain_id'']) (example_world Present) =
      (fst (resourceIBMCdToolchainToolSecuritycomplianceUpdate example_env example_meta
         (example_d ''tc-1/tool-9'' [''toolchain_id'']) (example_world Present)),
       fst (snd (resourceIBMCdToolchainToolSecuritycomplianceUpdate example_env example_meta
         (example_d ''tc-1/tool-9'' [''toolchain_id'']) (example_world Present))),
       snd (snd (resourceIBMCdToolchainToolSecuritycomplianceUpdate example_env example_meta
         (example_d ''tc-1/tool-9'' [''toolchain_id'']) (example_world Present))))"
    by simp
  show ?thesis
    using update_force_new [OF changed run] ready
    by (simp add: prod_eq_iff)
qed

text \<open>
  C10 as stated fails when the SDK client cannot be obtained: the diagnostic that
  Update returns is then the error of the session and does not name the property.
\<close>

theorem update_no_client_counterexample:
  "d_HasChange (example_d ''tc-1/tool-9'' [''toolchain_id'']) ''toolchain_id'' \<and>
   resourceIBMCdToolchainToolSecuritycomplianceUpdate example_env example_meta_no_client
     (example_d ''tc-1/tool-9'' [''toolchain_id'']) (example_world Present) =
   (FromErr (Opaque ''no client''), example_d ''tc-1/tool-9'' [''toolchain_id''],
    example_world Present)"
  by (simp add: Update_no_client example_meta_no_client_def d_HasChange_def example_d_def)

subsection \<open>One SDK method for each operation\<close>

text \<open>
  C3, as the code has it. No operation invokes its SDK method more than once. Create
  invokes \<open>CreateTool\<close> exactly once when the SDK client is obtained, and not at all
  otherwise. Read invokes \<open>GetToolByID\<close>, and Delete invokes \<open>DeleteTool\<close>, exactly
  once when the client is obtained and the resource ID separates into at least two
  parts, and not at all otherwise. Update invokes \<open>UpdateTool\<close> exactly once when, in
  addition, \<open>toolchain_id\<close> has not changed and \<open>parameters\<close> or \<open>name\<close> has, and not
  at all otherwise.
\<close>

theorem operations_invoke_sdk:
  "invocations is_CreateTool
     (snd (snd (resourceIBMCdToolchainToolSecuritycomplianceCreate env meta d w))) =
     invocations is_CreateTool w + (if client_obtained meta then 1 else 0) \<and>
   invocations is_GetToolByID
     (snd (snd (resourceIBMCdToolchainToolSecuritycomplianceRead env meta d w))) =
     invocations is_GetToolByID w +
       (if client_obtained meta \<and> id_separated env d then 1 else 0) \<and>
   invocations is_UpdateTool
     (snd (snd (resourceIBMCdToolchainToolSecuritycomplianceUpdate env meta d w))) =
     invocations is_UpdateTool w +
       (if client_obtained meta \<and> id_separated env d \<and> \<not> d_HasChange d ''toolchain_id'' \<and>
           (d_HasChange d ''parameters'' \<or> d_HasChange d ''name'')
        then 1 else 0) \<and>
   invocations is_DeleteTool
     (snd (snd (resourceIBMCdToolchainToolSecuritycomplianceDelete env meta d w))) =
     invocations is_DeleteTool w +
       (if client_obtained meta \<and> id_separated env d then 1 else 0)"
  by (intro conjI Create_invocations Read_invocations(1) Update_invocations Delete_invocations)

theorem operations_invoke_sdk_witness:
  "invocations is_UpdateTool
     (snd (snd (resourceIBMCdToolchainToolSecuritycomplianceUpdate example_env example_meta
        (example_d ''tc-1/tool-9'' [''name'']) (example_world Present)))) = 1 \<and>
   invocations is_DeleteTool
     (snd (snd (resourceIBMCdToolchainToolSecuritycomplianceDelete example_env example_meta
        (example_d ''tc-1/tool-9'' [''name'']) (example_world Present)))) = 1 \<and>
   invocations is_GetToolByID
     (snd (snd (resourceIBMCdToolchainToolSecuritycomplianceRead example_env example_meta
        (example_d ''tool-9'' [''name'']) (example_world Present)))) = 0"
  using operations_invoke_sdk [of example_env example_meta "example_d ''tc-1/tool-9'' [''name'']"
      "example_world Present"]
    operations_invoke_sdk [of example_env example_meta "example_d ''tool-9'' [''name'']"
      "example_world Present"]
  by (simp add: client_obtained_def example_meta_def id_separated_def example_env_def
        example_d_def d_Id_def d_HasChange_def invocations_def example_world_def)

text \<open>
  C3 as stated fails for an Update in which nothing has changed: the client is there,
  the ID is well formed, and \<open>UpdateTool\<close> is not invoked; the only call is the
  \<open>GetToolByID\<close> of the Read that Update ends with.
\<close>

theorem update_nothing_changed_counterexample:
  "sdk_calls (snd (snd (resourceIBMCdToolchainToolSecuritycomplianceUpdate example_env example_meta
      (example_d ''tc-1/tool-9'' []) (example_world Present)))) =
     [GetToolByIDCall \<lparr>gto_ToolchainID = Some ''tc-1'', gto_ToolID = Some ''tool-9''\<rparr>]"
proof -
  have session: "CdToolchainV2 example_meta = Inr example_client"
    by (simp add: example_meta_def)
  have parts: "SepIdParts example_env (rd_id (example_d ''tc-1/tool-9'' [])) ''/'' =
      Inr (''tc-1'' # ''tool-9'' # [])"
    by (simp add: example_env_def example_d_def)
  have unchanged: "\<not> d_HasChange (example_d ''tc-1/tool-9'' []) key" for key
    by (simp add: d_HasChange_def example_d_def)
  show ?thesis
    using session parts
    by (simp add: Update_no_change [OF session parts unchanged unchanged unchanged]
          Read_calls example_world_def)
qed

end
